theory Spec2Isabelle
  imports Complex_Main "HOL-Library.Word" "HOL-Library.Multiset"
begin

section \<open>Data model\<close>

text \<open>
  Status codes returned by every fallible operation.  A function of the source that
  returns a \<open>StatusCode\<close> and writes through reference parameters is a function into
  \<open>StatusCode + 'a\<close> (\<open>Inl\<close> the status of an early return) or, where the caller reads
  the reference parameter after a non-success status, into a pair of the status and
  the parameter's value.
\<close>

datatype StatusCode =
    STATUS_CODE_SUCCESS
  | STATUS_CODE_FAILURE
  | STATUS_CODE_NOT_FOUND
  | STATUS_CODE_NOT_INITIALIZED
  | STATUS_CODE_NOT_ALLOWED
  | STATUS_CODE_INVALID_PARAMETER
  | STATUS_CODE_UNCHANGED
  | STATUS_CODE_ALREADY_PRESENT

text \<open>\<open>PseudoLayer\<close> and every counter of the source are \<open>unsigned int\<close>.\<close>

type_synonym PseudoLayer = "32 word"

definition LAYER_MAX :: PseudoLayer where
  "LAYER_MAX = 4294967295"

text \<open>
  Single precision numbers are taken as real numbers: rounding, infinities and NaN are
  outside the model.
\<close>

definition FLOAT_MAX :: real where
  "FLOAT_MAX = 340282346638528859811704183484516925440"

text \<open>
  Modelled from the spec: the class \<open>CartesianVector\<close> (three coordinates, difference,
  cross product and magnitude) is not among the sources.
\<close>

datatype CartesianVector = CartesianVector real real real

fun vminus :: "CartesianVector \<Rightarrow> CartesianVector \<Rightarrow> CartesianVector" where
  "vminus (CartesianVector ax ay az) (CartesianVector bx by bz) =
     CartesianVector (ax - bx) (ay - by) (az - bz)"

fun GetCrossProduct :: "CartesianVector \<Rightarrow> CartesianVector \<Rightarrow> CartesianVector" where
  "GetCrossProduct (CartesianVector ax ay az) (CartesianVector bx by bz) =
     CartesianVector (ay * bz - az * by) (az * bx - ax * bz) (ax * by - ay * bx)"

fun GetMagnitude :: "CartesianVector \<Rightarrow> real" where
  "GetMagnitude (CartesianVector ax ay az) = sqrt (ax * ax + ay * ay + az * az)"

datatype HitType = ECAL | HCAL

text \<open>
  A hit is addressed by pointer in the source; \<open>hitId\<close> stands for the address, so that
  two hits with the same measurements are still two hits.  The availability flag is
  the only mutable part of a hit and lives in the event state below.
\<close>

record CaloHit =
  hitId :: nat
  positionVector :: CartesianVector
  hitType :: HitType
  cellLengthScale :: real
  pseudoLayer :: PseudoLayer
  hitHadronicEnergy :: real
  isIsolated :: bool
  isPossibleMip :: bool

record Track =
  trackId :: nat
  energyAtDca :: real
  trackStateAtECalPosition :: CartesianVector

text \<open>
  Modelled from the spec: the class \<open>OrderedCaloHitList\<close> is not among the sources.  It
  maps a pseudo layer to the hits of that layer and is iterated by increasing layer:
  an association list kept sorted by layer.  \<open>insertHit\<close> files one hit under its own
  layer; \<open>OrderedCaloHitList_Add\<close> merges a hit list in and refuses a hit that is
  already filed.
\<close>

type_synonym OrderedCaloHitList = "(PseudoLayer \<times> CaloHit list) list"

fun insertHit :: "CaloHit \<Rightarrow> OrderedCaloHitList \<Rightarrow> OrderedCaloHitList" where
  "insertHit h [] = [(pseudoLayer h, [h])]"
| "insertHit h ((l, hs) # rest) =
     (if pseudoLayer h < l then (pseudoLayer h, [h]) # (l, hs) # rest
      else if pseudoLayer h = l then (l, hs @ [h]) # rest
      else (l, hs) # insertHit h rest)"

definition OrderedCaloHitList_find :: "OrderedCaloHitList \<Rightarrow> PseudoLayer \<Rightarrow> CaloHit list option" where
  "OrderedCaloHitList_find m l = map_of m l"

definition GetCaloHitList :: "OrderedCaloHitList \<Rightarrow> CaloHit list" where
  "GetCaloHitList m = concat (map snd m)"

fun OrderedCaloHitList_Add :: "OrderedCaloHitList \<Rightarrow> CaloHit list \<Rightarrow> StatusCode + OrderedCaloHitList" where
  "OrderedCaloHitList_Add m [] = Inr m"
| "OrderedCaloHitList_Add m (h # hs) =
     (if h \<in> set (GetCaloHitList m) then Inl STATUS_CODE_ALREADY_PRESENT
      else OrderedCaloHitList_Add (insertHit h m) hs)"

text \<open>
  Modelled from the spec: the class \<open>Cluster\<close> is not among the sources.  A cluster
  holds its associated tracks, its hits in the order they were added, its isolated
  hits, a running hadronic energy (the sum of the energies of the hits added), an
  initial direction and its outer pseudo layer.  Its ordered hit collection is the
  hits filed by layer.
\<close>

record Cluster =
  associatedTrackList :: "Track list"
  caloHitList :: "CaloHit list"
  isolatedCaloHitList :: "CaloHit list"
  hadronicEnergy :: real
  initialDirection :: CartesianVector
  outerPseudoLayer :: PseudoLayer

definition GetOrderedCaloHitList :: "Cluster \<Rightarrow> OrderedCaloHitList" where
  "GetOrderedCaloHitList c = foldl (\<lambda>m h. insertHit h m) [] (caloHitList c)"

definition GetNCaloHits :: "Cluster \<Rightarrow> 32 word" where
  "GetNCaloHits c = of_nat (length (caloHitList c))"

definition emptyCluster :: Cluster where
  "emptyCluster =
     \<lparr>associatedTrackList = [], caloHitList = [], isolatedCaloHitList = [], hadronicEnergy = 0,
      initialDirection = CartesianVector 0 0 0, outerPseudoLayer = 0\<rparr>"

definition Cluster_AddCaloHit :: "Cluster \<Rightarrow> CaloHit \<Rightarrow> Cluster" where
  "Cluster_AddCaloHit c h =
     c\<lparr>caloHitList := caloHitList c @ [h],
       hadronicEnergy := hadronicEnergy c + hitHadronicEnergy h,
       outerPseudoLayer := max (outerPseudoLayer c) (pseudoLayer h)\<rparr>"

section \<open>Mip-photon separation\<close>

record MipPhotonSeparationSettings =
  m_nLayersForMipRegion :: "32 word"
  m_nLayersForShowerRegion :: "32 word"
  m_maxLayersMissed :: "32 word"
  m_minMipRegion2Span :: "32 word"
  m_maxShowerStartLayer :: "32 word"
  m_minShowerRegionSpan :: "32 word"
  m_maxShowerStartLayer2 :: "32 word"
  m_minShowerRegionSpan2 :: "32 word"
  m_nonPhotonDeltaChi2Cut :: real
  m_photonDeltaChi2Cut :: real
  m_minHitsInPhotonCluster :: "32 word"
  m_genericDistanceCut :: real
  m_trackPathWidth :: real
  m_maxTrackSeparation :: real
  m_additionalPadWidthsECal :: real
  m_additionalPadWidthsHCal :: real

subsection \<open>GetDistanceToTrack\<close>

text \<open>
  The reference parameter \<open>distance\<close> is passed in and returned beside the status: it
  is written on success only, and both callers read it afterwards.
\<close>

definition GetDistanceToTrack ::
  "MipPhotonSeparationSettings \<Rightarrow> Cluster \<Rightarrow> Track \<Rightarrow> CaloHit \<Rightarrow> real \<Rightarrow> StatusCode \<times> real" where
  "GetDistanceToTrack cfg pCluster pTrack pCaloHit distance =
     (if 0 = m_maxTrackSeparation cfg then (STATUS_CODE_FAILURE, distance)
      else
        let hitPosition = positionVector pCaloHit;
            trackSeedPosition = trackStateAtECalPosition pTrack;
            positionDifference = vminus hitPosition trackSeedPosition;
            separation = GetMagnitude positionDifference
        in
          if separation < m_maxTrackSeparation cfg then
            let dPerp = GetMagnitude (GetCrossProduct (initialDirection pCluster) positionDifference);
                flexibility = 1 + (m_trackPathWidth cfg * (separation / m_maxTrackSeparation cfg));
                dCut = (if ECAL = hitType pCaloHit
                        then flexibility * (m_additionalPadWidthsECal cfg * cellLengthScale pCaloHit)
                        else flexibility * (m_additionalPadWidthsHCal cfg * cellLengthScale pCaloHit))
            in
              if 0 = dCut then (STATUS_CODE_FAILURE, distance)
              else (STATUS_CODE_SUCCESS, dPerp / dCut)
          else (STATUS_CODE_UNCHANGED, distance))"

text \<open>The quantities the contract of \<open>GetDistanceToTrack\<close> is worded with.\<close>

definition rawSeparation :: "Track \<Rightarrow> CaloHit \<Rightarrow> real" where
  "rawSeparation pTrack pCaloHit =
     GetMagnitude (vminus (positionVector pCaloHit) (trackStateAtECalPosition pTrack))"

definition perpendicularDistance :: "Cluster \<Rightarrow> Track \<Rightarrow> CaloHit \<Rightarrow> real" where
  "perpendicularDistance pCluster pTrack pCaloHit =
     GetMagnitude (GetCrossProduct (initialDirection pCluster)
       (vminus (positionVector pCaloHit) (trackStateAtECalPosition pTrack)))"

definition cutWidth :: "MipPhotonSeparationSettings \<Rightarrow> Track \<Rightarrow> CaloHit \<Rightarrow> real" where
  "cutWidth cfg pTrack pCaloHit =
     (case hitType pCaloHit of ECAL \<Rightarrow> m_additionalPadWidthsECal cfg | HCAL \<Rightarrow> m_additionalPadWidthsHCal cfg)
       * cellLengthScale pCaloHit
       * (1 + m_trackPathWidth cfg * (rawSeparation pTrack pCaloHit / m_maxTrackSeparation cfg))"

text \<open>The contract in the words of the specification, case by case.\<close>

definition GetDistanceToTrack_contract ::
  "MipPhotonSeparationSettings \<Rightarrow> Cluster \<Rightarrow> Track \<Rightarrow> CaloHit \<Rightarrow> real \<Rightarrow> StatusCode \<times> real" where
  "GetDistanceToTrack_contract cfg pCluster pTrack pCaloHit distance =
     (if m_maxTrackSeparation cfg = 0 then (STATUS_CODE_FAILURE, distance)
      else if rawSeparation pTrack pCaloHit \<ge> m_maxTrackSeparation cfg then (STATUS_CODE_UNCHANGED, distance)
      else if cutWidth cfg pTrack pCaloHit = 0 then (STATUS_CODE_FAILURE, distance)
      else (STATUS_CODE_SUCCESS, perpendicularDistance pCluster pTrack pCaloHit / cutWidth cfg pTrack pCaloHit))"

subsection \<open>ShouldFragmentCluster\<close>

text \<open>The local variables of the layer scan, with the two reference parameters.\<close>

record ScanState =
  showerStartLayer :: PseudoLayer
  showerEndLayer :: PseudoLayer
  mipRegion1StartLayer :: PseudoLayer
  mipRegion1EndLayer :: PseudoLayer
  mipRegion2StartLayer :: PseudoLayer
  mipRegion2EndLayer :: PseudoLayer
  shouldContinue :: bool
  layersMissed :: "32 word"
  mipCount :: "32 word"
  showerCount :: "32 word"
  mipRegion1 :: bool
  mipRegion2 :: bool
  showerRegion :: bool

record LayerFlags =
  trackHitFound :: bool
  mipTrackHitFound :: bool
  showerTrackHitFound :: bool

definition noTrackHit :: LayerFlags where
  "noTrackHit = \<lparr>trackHitFound = False, mipTrackHitFound = False, showerTrackHitFound = False\<rparr>"

text \<open>The body of the loop over the hits of one layer: a hit whose distance is not
  computed with SUCCESS is passed over.\<close>

definition scanHit ::
  "MipPhotonSeparationSettings \<Rightarrow> Cluster \<Rightarrow> Track \<Rightarrow> LayerFlags \<Rightarrow> CaloHit \<Rightarrow> LayerFlags" where
  "scanHit cfg pCluster pTrack fl pCaloHit =
     (case GetDistanceToTrack cfg pCluster pTrack pCaloHit FLOAT_MAX of
        (status, distance) \<Rightarrow>
          if STATUS_CODE_SUCCESS \<noteq> status then fl
          else if distance < m_genericDistanceCut cfg then
            (if isPossibleMip pCaloHit
             then fl\<lparr>trackHitFound := True, mipTrackHitFound := True\<rparr>
             else fl\<lparr>trackHitFound := True, showerTrackHitFound := True\<rparr>)
          else fl)"

definition findTrackHits ::
  "MipPhotonSeparationSettings \<Rightarrow> Cluster \<Rightarrow> Track \<Rightarrow> PseudoLayer \<Rightarrow> LayerFlags" where
  "findTrackHits cfg pCluster pTrack iLayer =
     (case OrderedCaloHitList_find (GetOrderedCaloHitList pCluster) iLayer of
        None \<Rightarrow> noTrackHit
      | Some hits \<Rightarrow> foldl (scanHit cfg pCluster pTrack) noTrackHit hits)"

text \<open>A layer with a mip hit and no shower hit.\<close>

definition mipOnlyLayer :: "MipPhotonSeparationSettings \<Rightarrow> PseudoLayer \<Rightarrow> ScanState \<Rightarrow> ScanState" where
  "mipOnlyLayer cfg iLayer st =
     (let a = (if mipRegion1 st \<and> iLayer < mipRegion1StartLayer st
               then st\<lparr>mipRegion1StartLayer := iLayer\<rparr> else st);
          b = (if mipRegion1 a \<or> mipRegion2 a then a\<lparr>showerCount := 0\<rparr> else a)
      in if showerRegion b then
           (let c = b\<lparr>mipCount := mipCount b + 1\<rparr>
            in if mipCount c = m_nLayersForMipRegion cfg
               then c\<lparr>mipRegion2 := True, showerRegion := False, showerCount := 0\<rparr>
               else c\<lparr>mipRegion2StartLayer := iLayer\<rparr>)
         else b)"

text \<open>A layer with a shower hit and no mip hit.\<close>

definition showerOnlyLayer :: "MipPhotonSeparationSettings \<Rightarrow> PseudoLayer \<Rightarrow> ScanState \<Rightarrow> ScanState" where
  "showerOnlyLayer cfg iLayer st =
     (let a = (if showerRegion st then st\<lparr>mipCount := 0\<rparr> else st)
      in if mipRegion1 a \<or> mipRegion2 a then
           (let b = a\<lparr>showerCount := showerCount a + 1\<rparr>
            in if showerCount b = m_nLayersForShowerRegion cfg then
                 (let c = (if mipRegion1 b
                           then b\<lparr>showerRegion := True, mipRegion1 := False, showerCount := 0\<rparr>
                           else b)
                  in if mipRegion2 c then c\<lparr>shouldContinue := False\<rparr> else c)
               else if mipRegion1 b then b\<lparr>showerStartLayer := iLayer\<rparr>
               else b)
         else a)"

text \<open>What one layer does to the scan, once its hits have been looked at.\<close>

definition updateRegions ::
  "MipPhotonSeparationSettings \<Rightarrow> PseudoLayer \<Rightarrow> LayerFlags \<Rightarrow> ScanState \<Rightarrow> ScanState" where
  "updateRegions cfg iLayer fl st =
     (let st1 = (if trackHitFound fl then st\<lparr>layersMissed := 0\<rparr>
                 else st\<lparr>layersMissed := layersMissed st + 1\<rparr>);
          st2 = (if mipTrackHitFound fl then
                   (let a = (if mipRegion1 st1 then st1\<lparr>mipRegion1EndLayer := iLayer\<rparr> else st1)
                    in if mipRegion2 a then a\<lparr>mipRegion2EndLayer := iLayer\<rparr> else a)
                 else st1);
          st3 = (if showerTrackHitFound fl \<and> showerRegion st2
                 then st2\<lparr>showerEndLayer := iLayer\<rparr> else st2);
          st4 = (if mipTrackHitFound fl \<and> \<not> showerTrackHitFound fl
                 then mipOnlyLayer cfg iLayer st3 else st3);
          st5 = (if \<not> mipTrackHitFound fl \<and> showerTrackHitFound fl
                 then showerOnlyLayer cfg iLayer st4 else st4)
      in if layersMissed st5 > m_maxLayersMissed cfg then st5\<lparr>shouldContinue := False\<rparr> else st5)"

text \<open>
  The loop over the pseudo layers.  The layer index is an \<open>unsigned int\<close>: with an outer
  layer of \<open>LAYER_MAX\<close> the bound never stops it, so the loop is a partial function and
  \<open>None\<close> stands for a scan that does not return.
\<close>

partial_function (option) scanLayers ::
  "MipPhotonSeparationSettings \<Rightarrow> Cluster \<Rightarrow> Track \<Rightarrow> PseudoLayer \<Rightarrow> PseudoLayer \<Rightarrow> ScanState
     \<Rightarrow> ScanState option" where
  "scanLayers cfg pCluster pTrack lastPseudoLayer iLayer st =
     (if iLayer \<le> lastPseudoLayer \<and> shouldContinue st
      then scanLayers cfg pCluster pTrack lastPseudoLayer (iLayer + 1)
             (updateRegions cfg iLayer (findTrackHits cfg pCluster pTrack iLayer) st)
      else Some st)"

definition initialScanState :: "PseudoLayer \<Rightarrow> PseudoLayer \<Rightarrow> ScanState" where
  "initialScanState showerStart showerEnd =
     \<lparr>showerStartLayer = showerStart, showerEndLayer = showerEnd,
      mipRegion1StartLayer = LAYER_MAX, mipRegion1EndLayer = LAYER_MAX,
      mipRegion2StartLayer = LAYER_MAX, mipRegion2EndLayer = LAYER_MAX,
      shouldContinue = True, layersMissed = 0, mipCount = 0, showerCount = 0,
      mipRegion1 = True, mipRegion2 = False, showerRegion = False\<rparr>"

text \<open>The decision taken from the findings of the scan.\<close>

definition fragmentDecision :: "MipPhotonSeparationSettings \<Rightarrow> ScanState \<Rightarrow> bool" where
  "fragmentDecision cfg st =
     (if mipRegion2EndLayer st = LAYER_MAX then False
      else if showerEndLayer st \<noteq> LAYER_MAX \<and> showerStartLayer st = LAYER_MAX then True
      else if (mipRegion2EndLayer st \<noteq> LAYER_MAX
                \<and> mipRegion2EndLayer st - mipRegion2StartLayer st > m_minMipRegion2Span cfg)
              \<and> (showerStartLayer st < m_maxShowerStartLayer cfg
                \<and> (showerEndLayer st \<noteq> LAYER_MAX
                \<and> showerEndLayer st - showerStartLayer st > m_minShowerRegionSpan cfg))
           then True
      else if showerStartLayer st < m_maxShowerStartLayer2 cfg
              \<and> (showerEndLayer st \<noteq> LAYER_MAX
                \<and> showerEndLayer st - showerStartLayer st > m_minShowerRegionSpan2 cfg)
           then True
      else False)"

text \<open>
  The scan of \<open>ShouldFragmentCluster\<close>, up to the decision.  The constant
  \<open>TRACK_PROJECTION_LAYER\<close> is not among the sources and is a parameter.  The track is
  the first of the cluster's track list; with an empty list the source dereferences
  the end iterator, which is \<open>None\<close> here.
\<close>

definition scanCluster ::
  "MipPhotonSeparationSettings \<Rightarrow> PseudoLayer \<Rightarrow> Cluster \<Rightarrow> PseudoLayer \<Rightarrow> PseudoLayer
     \<Rightarrow> ScanState option" where
  "scanCluster cfg TRACK_PROJECTION_LAYER pCluster showerStart showerEnd =
     (case associatedTrackList pCluster of
        [] \<Rightarrow> None
      | pTrack # _ \<Rightarrow>
          scanLayers cfg pCluster pTrack (outerPseudoLayer pCluster) (TRACK_PROJECTION_LAYER + 1)
            (initialScanState showerStart showerEnd))"

text \<open>The result is the decision with the values left in the two reference parameters.\<close>

definition ShouldFragmentCluster ::
  "MipPhotonSeparationSettings \<Rightarrow> PseudoLayer \<Rightarrow> Cluster \<Rightarrow> PseudoLayer \<Rightarrow> PseudoLayer
     \<Rightarrow> (bool \<times> PseudoLayer \<times> PseudoLayer) option" where
  "ShouldFragmentCluster cfg TRACK_PROJECTION_LAYER pCluster showerStart showerEnd =
     (case scanCluster cfg TRACK_PROJECTION_LAYER pCluster showerStart showerEnd of
        None \<Rightarrow> None
      | Some st \<Rightarrow> Some (fragmentDecision cfg st, showerStartLayer st, showerEndLayer st))"

text \<open>
  One turn of the loop on the pair of the layer index and the local variables, and the
  loop's condition: the scan is the iteration of \<open>scanStep\<close> while \<open>scanCond\<close> holds.
\<close>

definition scanStep ::
  "MipPhotonSeparationSettings \<Rightarrow> Cluster \<Rightarrow> Track \<Rightarrow> PseudoLayer \<times> ScanState \<Rightarrow> PseudoLayer \<times> ScanState" where
  "scanStep cfg pCluster pTrack = (\<lambda>(iLayer, st).
     (iLayer + 1, updateRegions cfg iLayer (findTrackHits cfg pCluster pTrack iLayer) st))"

definition scanCond :: "PseudoLayer \<Rightarrow> PseudoLayer \<times> ScanState \<Rightarrow> bool" where
  "scanCond lastPseudoLayer = (\<lambda>(iLayer, st). iLayer \<le> lastPseudoLayer \<and> shouldContinue st)"

text \<open>
  The scan runs its turn number \<open>n\<close> (counted from 0), in the first mip region, on a
  layer with a shower hit and no mip hit, and the shower count reaches the threshold
  there.
\<close>

definition showerThresholdReached ::
  "MipPhotonSeparationSettings \<Rightarrow> Cluster \<Rightarrow> Track \<Rightarrow> PseudoLayer \<Rightarrow> PseudoLayer \<Rightarrow> ScanState
     \<Rightarrow> nat \<Rightarrow> bool" where
  "showerThresholdReached cfg pCluster pTrack lastPseudoLayer iLayer st n =
     ((\<forall>j\<le>n. scanCond lastPseudoLayer ((scanStep cfg pCluster pTrack ^^ j) (iLayer, st)))
      \<and> (case (scanStep cfg pCluster pTrack ^^ n) (iLayer, st) of
           (l, s) \<Rightarrow>
             mipRegion1 s
             \<and> \<not> mipTrackHitFound (findTrackHits cfg pCluster pTrack l)
             \<and> showerTrackHitFound (findTrackHits cfg pCluster pTrack l)
             \<and> showerCount s + 1 = m_nLayersForShowerRegion cfg))"

text \<open>In the first mip region nothing of the later regions has been seen.\<close>

definition noSecondMipRegion :: "ScanState \<Rightarrow> bool" where
  "noSecondMipRegion st =
     (mipRegion1 st \<longrightarrow> \<not> showerRegion st \<and> \<not> mipRegion2 st \<and> mipRegion2EndLayer st = LAYER_MAX)"

text \<open>
  The decision as the specification words it: a second mip region was seen, and either
  a shower end was found with no shower start, or the span of the second mip region
  and the start and span of the shower pass the first set of cuts, or the start and
  span of the shower pass the second set.
\<close>

definition fragmentDecision_spec :: "MipPhotonSeparationSettings \<Rightarrow> ScanState \<Rightarrow> bool" where
  "fragmentDecision_spec cfg st =
     (mipRegion2EndLayer st \<noteq> LAYER_MAX
      \<and> ((showerEndLayer st \<noteq> LAYER_MAX \<and> showerStartLayer st = LAYER_MAX)
         \<or> (mipRegion2EndLayer st - mipRegion2StartLayer st > m_minMipRegion2Span cfg
             \<and> showerStartLayer st < m_maxShowerStartLayer cfg
             \<and> showerEndLayer st - showerStartLayer st > m_minShowerRegionSpan cfg)
         \<or> (showerStartLayer st < m_maxShowerStartLayer2 cfg
             \<and> showerEndLayer st - showerStartLayer st > m_minShowerRegionSpan2 cfg)))"

text \<open>The same with the test the source makes first in each shower span: a shower end
  layer was found.\<close>

definition fragmentDecision_guarded :: "MipPhotonSeparationSettings \<Rightarrow> ScanState \<Rightarrow> bool" where
  "fragmentDecision_guarded cfg st =
     (mipRegion2EndLayer st \<noteq> LAYER_MAX
      \<and> ((showerEndLayer st \<noteq> LAYER_MAX \<and> showerStartLayer st = LAYER_MAX)
         \<or> (mipRegion2EndLayer st - mipRegion2StartLayer st > m_minMipRegion2Span cfg
             \<and> showerStartLayer st < m_maxShowerStartLayer cfg
             \<and> showerEndLayer st \<noteq> LAYER_MAX
             \<and> showerEndLayer st - showerStartLayer st > m_minShowerRegionSpan cfg)
         \<or> (showerStartLayer st < m_maxShowerStartLayer2 cfg
             \<and> showerEndLayer st \<noteq> LAYER_MAX
             \<and> showerEndLayer st - showerStartLayer st > m_minShowerRegionSpan2 cfg)))"

subsection \<open>MakeClusterFragments\<close>

text \<open>
  Modelled from the spec: the content API that creates a cluster from a track or from a
  hit and adds a hit to a cluster is not among the sources.  During a fragmentation
  the hits of the original cluster are at the disposal of its fragments; a cluster
  refuses a hit it already holds.
\<close>

definition Cluster_Create_fromTrack :: "Track \<Rightarrow> StatusCode + Cluster" where
  "Cluster_Create_fromTrack pTrack = Inr (emptyCluster\<lparr>associatedTrackList := [pTrack]\<rparr>)"

definition Cluster_Create_fromCaloHit :: "CaloHit \<Rightarrow> StatusCode + Cluster" where
  "Cluster_Create_fromCaloHit pCaloHit = Inr (Cluster_AddCaloHit emptyCluster pCaloHit)"

definition Fragment_AddCaloHitToCluster :: "Cluster \<Rightarrow> CaloHit \<Rightarrow> StatusCode + Cluster" where
  "Fragment_AddCaloHitToCluster pCluster pCaloHit =
     (if pCaloHit \<in> set (caloHitList pCluster) then Inl STATUS_CODE_ALREADY_PRESENT
      else Inr (Cluster_AddCaloHit pCluster pCaloHit))"

text \<open>
  The body of the loop over the hits of one layer.  The two fragment pointers are
  reference parameters, \<open>None\<close> for \<open>NULL\<close>; they are returned beside the status, which
  is \<open>STATUS_CODE_SUCCESS\<close> when the loop goes on.
\<close>

definition fragmentHit ::
  "MipPhotonSeparationSettings \<Rightarrow> PseudoLayer \<Rightarrow> PseudoLayer \<Rightarrow> Cluster \<Rightarrow> Track \<Rightarrow> PseudoLayer
     \<Rightarrow> Cluster option \<times> Cluster option \<Rightarrow> CaloHit
     \<Rightarrow> StatusCode \<times> Cluster option \<times> Cluster option" where
  "fragmentHit cfg showerStart showerEnd pOriginalCluster pTrack iLayer frags pCaloHit =
     (case frags of (pMipCluster, pPhotonCluster) \<Rightarrow>
      (case GetDistanceToTrack cfg pOriginalCluster pTrack pCaloHit 0 of
        (status, distance) \<Rightarrow>
          if status \<noteq> STATUS_CODE_SUCCESS \<and> status \<noteq> STATUS_CODE_UNCHANGED
          then (status, pMipCluster, pPhotonCluster)
          else if distance < m_genericDistanceCut cfg \<or> iLayer < showerStart \<or> iLayer > showerEnd then
            (case pMipCluster of
               None \<Rightarrow>
                 (case Cluster_Create_fromTrack pTrack of
                    Inl e \<Rightarrow> (e, pMipCluster, pPhotonCluster)
                  | Inr c \<Rightarrow>
                      (case Fragment_AddCaloHitToCluster c pCaloHit of
                         Inl e \<Rightarrow> (e, Some c, pPhotonCluster)
                       | Inr c' \<Rightarrow> (STATUS_CODE_SUCCESS, Some c', pPhotonCluster)))
             | Some c \<Rightarrow>
                 (case Fragment_AddCaloHitToCluster c pCaloHit of
                    Inl e \<Rightarrow> (e, pMipCluster, pPhotonCluster)
                  | Inr c' \<Rightarrow> (STATUS_CODE_SUCCESS, Some c', pPhotonCluster)))
          else
            (case pPhotonCluster of
               None \<Rightarrow>
                 (case Cluster_Create_fromCaloHit pCaloHit of
                    Inl e \<Rightarrow> (e, pMipCluster, pPhotonCluster)
                  | Inr c \<Rightarrow> (STATUS_CODE_SUCCESS, pMipCluster, Some c))
             | Some c \<Rightarrow>
                 (case Fragment_AddCaloHitToCluster c pCaloHit of
                    Inl e \<Rightarrow> (e, pMipCluster, pPhotonCluster)
                  | Inr c' \<Rightarrow> (STATUS_CODE_SUCCESS, pMipCluster, Some c')))))"

fun fragmentHits ::
  "MipPhotonSeparationSettings \<Rightarrow> PseudoLayer \<Rightarrow> PseudoLayer \<Rightarrow> Cluster \<Rightarrow> Track \<Rightarrow> PseudoLayer
     \<Rightarrow> CaloHit list \<Rightarrow> Cluster option \<times> Cluster option
     \<Rightarrow> StatusCode \<times> Cluster option \<times> Cluster option" where
  "fragmentHits cfg showerStart showerEnd pOriginalCluster pTrack iLayer [] frags =
     (STATUS_CODE_SUCCESS, frags)"
| "fragmentHits cfg showerStart showerEnd pOriginalCluster pTrack iLayer (pCaloHit # hits) frags =
     (case fragmentHit cfg showerStart showerEnd pOriginalCluster pTrack iLayer frags pCaloHit of
        (status, frags') \<Rightarrow>
          if status \<noteq> STATUS_CODE_SUCCESS then (status, frags')
          else fragmentHits cfg showerStart showerEnd pOriginalCluster pTrack iLayer hits frags')"

fun fragmentLayers ::
  "MipPhotonSeparationSettings \<Rightarrow> PseudoLayer \<Rightarrow> PseudoLayer \<Rightarrow> Cluster \<Rightarrow> Track
     \<Rightarrow> OrderedCaloHitList \<Rightarrow> Cluster option \<times> Cluster option
     \<Rightarrow> StatusCode \<times> Cluster option \<times> Cluster option" where
  "fragmentLayers cfg showerStart showerEnd pOriginalCluster pTrack [] frags =
     (STATUS_CODE_SUCCESS, frags)"
| "fragmentLayers cfg showerStart showerEnd pOriginalCluster pTrack ((iLayer, hits) # layers) frags =
     (case fragmentHits cfg showerStart showerEnd pOriginalCluster pTrack iLayer hits frags of
        (status, frags') \<Rightarrow>
          if status \<noteq> STATUS_CODE_SUCCESS then (status, frags')
          else fragmentLayers cfg showerStart showerEnd pOriginalCluster pTrack layers frags')"

text \<open>
  \<open>MakeClusterFragments\<close>: the status with the two fragment pointers as the call leaves
  them.  As in the scan, an empty track list is a dereference of the end iterator.
\<close>

definition MakeClusterFragments ::
  "MipPhotonSeparationSettings \<Rightarrow> PseudoLayer \<Rightarrow> PseudoLayer \<Rightarrow> Cluster
     \<Rightarrow> Cluster option \<Rightarrow> Cluster option
     \<Rightarrow> (StatusCode \<times> Cluster option \<times> Cluster option) option" where
  "MakeClusterFragments cfg showerStart showerEnd pOriginalCluster pMipCluster pPhotonCluster =
     (case associatedTrackList pOriginalCluster of
        [] \<Rightarrow> None
      | pTrack # _ \<Rightarrow>
          Some (case OrderedCaloHitList_Add (GetOrderedCaloHitList pOriginalCluster)
                       (isolatedCaloHitList pOriginalCluster) of
                  Inl e \<Rightarrow> (e, pMipCluster, pPhotonCluster)
                | Inr orderedCaloHitList \<Rightarrow>
                    fragmentLayers cfg showerStart showerEnd pOriginalCluster pTrack
                      orderedCaloHitList (pMipCluster, pPhotonCluster)))"

text \<open>The hits of a fragment pointer, and the rule that sends a hit to the mip fragment.\<close>

definition fragmentHitList :: "Cluster option \<Rightarrow> CaloHit list" where
  "fragmentHitList p = (case p of None \<Rightarrow> [] | Some c \<Rightarrow> caloHitList c)"

definition belongsToMipFragment ::
  "MipPhotonSeparationSettings \<Rightarrow> PseudoLayer \<Rightarrow> PseudoLayer \<Rightarrow> Cluster \<Rightarrow> Track \<Rightarrow> CaloHit \<Rightarrow> bool" where
  "belongsToMipFragment cfg showerStart showerEnd pOriginalCluster pTrack pCaloHit =
     (snd (GetDistanceToTrack cfg pOriginalCluster pTrack pCaloHit 0) < m_genericDistanceCut cfg
      \<or> pseudoLayer pCaloHit < showerStart \<or> pseudoLayer pCaloHit > showerEnd)"

text \<open>Every hit of an ordered hit collection is filed under its own layer.\<close>

definition wellFiled :: "OrderedCaloHitList \<Rightarrow> bool" where
  "wellFiled m = (\<forall>l hs h. (l, hs) \<in> set m \<and> h \<in> set hs \<longrightarrow> pseudoLayer h = l)"

text \<open>The hits of each fragment are distinct and sorted by the rule.\<close>

definition sortedByRule ::
  "MipPhotonSeparationSettings \<Rightarrow> PseudoLayer \<Rightarrow> PseudoLayer \<Rightarrow> Cluster \<Rightarrow> Track
     \<Rightarrow> Cluster option \<Rightarrow> Cluster option \<Rightarrow> bool" where
  "sortedByRule cfg showerStart showerEnd pOriginalCluster pTrack pMipCluster pPhotonCluster =
     (distinct (fragmentHitList pMipCluster) \<and> distinct (fragmentHitList pPhotonCluster)
      \<and> (\<forall>h \<in> set (fragmentHitList pMipCluster).
            belongsToMipFragment cfg showerStart showerEnd pOriginalCluster pTrack h)
      \<and> (\<forall>h \<in> set (fragmentHitList pPhotonCluster).
            \<not> belongsToMipFragment cfg showerStart showerEnd pOriginalCluster pTrack h))"

subsection \<open>Run\<close>

text \<open>
  The collaborators of \<open>Run\<close> that are not among the sources are parameters: the
  daughter algorithm that recomputes the track-cluster associations, the sort of the
  clusters by inner layer, the statuses of the list accessor and of the two ends of
  the fragmentation transaction, the corrected hadronic energy and the fast photon
  test of a cluster, and the track-cluster compatibility.
\<close>

record MipPhotonSeparationApi =
  RunTrackClusterAssociation :: "Cluster list \<Rightarrow> StatusCode \<times> Cluster list"
  GetCurrentClusterListStatus :: StatusCode
  SortByInnerLayer :: "Cluster list \<Rightarrow> Cluster list"
  InitializeFragmentation :: "Cluster \<Rightarrow> StatusCode"
  EndFragmentation :: "Cluster \<Rightarrow> StatusCode"
  GetCorrectedHadronicEnergy :: "Cluster \<Rightarrow> real"
  IsPhotonFast :: "Cluster \<Rightarrow> bool"
  GetTrackClusterCompatibility :: "real \<Rightarrow> real \<Rightarrow> real"

datatype ClusterListName = originalClustersListName | fragmentClustersListName

text \<open>The list chosen to be saved, and the list chosen to be deleted.\<close>

definition clusterListsToSaveAndDelete ::
  "MipPhotonSeparationApi \<Rightarrow> MipPhotonSeparationSettings \<Rightarrow> Cluster \<Rightarrow> Track
     \<Rightarrow> Cluster option \<Rightarrow> Cluster option \<Rightarrow> ClusterListName \<times> ClusterListName" where
  "clusterListsToSaveAndDelete api cfg pOriginalCluster pTrack pMipCluster pPhotonCluster =
     (case (pMipCluster, pPhotonCluster) of
        (Some mipCluster, Some photonCluster) \<Rightarrow>
          (let trackEnergy = energyAtDca pTrack;
               originalChi = GetTrackClusterCompatibility api
                               (GetCorrectedHadronicEnergy api pOriginalCluster) trackEnergy;
               newChi = GetTrackClusterCompatibility api
                               (GetCorrectedHadronicEnergy api mipCluster) trackEnergy;
               dChi2 = newChi * newChi - originalChi * originalChi;
               passChi2Cuts = (dChi2 < m_nonPhotonDeltaChi2Cut cfg
                               \<or> (IsPhotonFast api photonCluster \<and> dChi2 < m_photonDeltaChi2Cut cfg));
               useFragments = (GetNCaloHits photonCluster \<ge> m_minHitsInPhotonCluster cfg \<and> passChi2Cuts)
           in if useFragments then (fragmentClustersListName, originalClustersListName)
              else (originalClustersListName, fragmentClustersListName))
      | _ \<Rightarrow> (originalClustersListName, fragmentClustersListName))"

text \<open>
  Modelled from the spec: ending the fragmentation commits the list to save and
  discards the other.  Saving the fragments puts them in the place of the original
  cluster in the current cluster list.
\<close>

definition commitFragmentation ::
  "ClusterListName \<Rightarrow> Cluster \<Rightarrow> Cluster option \<Rightarrow> Cluster option \<Rightarrow> Cluster list \<Rightarrow> Cluster list" where
  "commitFragmentation toSave pOriginalCluster pMipCluster pPhotonCluster clusters =
     (case toSave of
        originalClustersListName \<Rightarrow> clusters
      | fragmentClustersListName \<Rightarrow>
          remove1 pOriginalCluster clusters @ List.map_filter id [pMipCluster, pPhotonCluster])"

text \<open>
  The body of the loop over the clusters, on the current cluster list.  \<open>None\<close> is a
  scan that does not return; the status is \<open>STATUS_CODE_SUCCESS\<close> when the loop goes on.
\<close>

definition separateCluster ::
  "MipPhotonSeparationApi \<Rightarrow> MipPhotonSeparationSettings \<Rightarrow> PseudoLayer \<Rightarrow> Cluster list \<Rightarrow> Cluster
     \<Rightarrow> (StatusCode \<times> Cluster list) option" where
  "separateCluster api cfg TRACK_PROJECTION_LAYER clusters pOriginalCluster =
     (case associatedTrackList pOriginalCluster of
        [pTrack] \<Rightarrow>
          (case ShouldFragmentCluster cfg TRACK_PROJECTION_LAYER pOriginalCluster LAYER_MAX LAYER_MAX of
             None \<Rightarrow> None
           | Some (fragment, showerStart, showerEnd) \<Rightarrow>
               if \<not> fragment then Some (STATUS_CODE_SUCCESS, clusters)
               else if InitializeFragmentation api pOriginalCluster \<noteq> STATUS_CODE_SUCCESS
               then Some (InitializeFragmentation api pOriginalCluster, clusters)
               else
                 (case MakeClusterFragments cfg showerStart showerEnd pOriginalCluster None None of
                    None \<Rightarrow> None
                  | Some (status, pMipCluster, pPhotonCluster) \<Rightarrow>
                      if status \<noteq> STATUS_CODE_SUCCESS then Some (status, clusters)
                      else
                        (case clusterListsToSaveAndDelete api cfg pOriginalCluster pTrack
                                pMipCluster pPhotonCluster of
                           (clusterListToSave, clusterListToDelete) \<Rightarrow>
                             if EndFragmentation api pOriginalCluster \<noteq> STATUS_CODE_SUCCESS
                             then Some (EndFragmentation api pOriginalCluster, clusters)
                             else Some (STATUS_CODE_SUCCESS,
                                        commitFragmentation clusterListToSave pOriginalCluster
                                          pMipCluster pPhotonCluster clusters))))
      | _ \<Rightarrow> Some (STATUS_CODE_SUCCESS, clusters))"

fun separateClusters ::
  "MipPhotonSeparationApi \<Rightarrow> MipPhotonSeparationSettings \<Rightarrow> PseudoLayer \<Rightarrow> Cluster list \<Rightarrow> Cluster list
     \<Rightarrow> (StatusCode \<times> Cluster list) option" where
  "separateClusters api cfg TRACK_PROJECTION_LAYER [] clusters = Some (STATUS_CODE_SUCCESS, clusters)"
| "separateClusters api cfg TRACK_PROJECTION_LAYER (pOriginalCluster # clusterVector) clusters =
     (case separateCluster api cfg TRACK_PROJECTION_LAYER clusters pOriginalCluster of
        None \<Rightarrow> None
      | Some (status, clusters') \<Rightarrow>
          if status \<noteq> STATUS_CODE_SUCCESS then Some (status, clusters')
          else separateClusters api cfg TRACK_PROJECTION_LAYER clusterVector clusters')"

definition MipPhotonSeparationAlgorithm_Run ::
  "MipPhotonSeparationApi \<Rightarrow> MipPhotonSeparationSettings \<Rightarrow> PseudoLayer \<Rightarrow> Cluster list
     \<Rightarrow> (StatusCode \<times> Cluster list) option" where
  "MipPhotonSeparationAlgorithm_Run api cfg TRACK_PROJECTION_LAYER clusters =
     (case RunTrackClusterAssociation api clusters of
        (status, clusters') \<Rightarrow>
          if status \<noteq> STATUS_CODE_SUCCESS then Some (status, clusters')
          else if GetCurrentClusterListStatus api \<noteq> STATUS_CODE_SUCCESS
          then Some (GetCurrentClusterListStatus api, clusters')
          else separateClusters api cfg TRACK_PROJECTION_LAYER (SortByInnerLayer api clusters') clusters')"

text \<open>The squared-chi delta between the mip fragment and the original cluster.\<close>

definition deltaChi2 :: "MipPhotonSeparationApi \<Rightarrow> Cluster \<Rightarrow> Track \<Rightarrow> Cluster \<Rightarrow> real" where
  "deltaChi2 api pOriginalCluster pTrack pMipCluster =
     (GetTrackClusterCompatibility api (GetCorrectedHadronicEnergy api pMipCluster) (energyAtDca pTrack))\<^sup>2
     - (GetTrackClusterCompatibility api (GetCorrectedHadronicEnergy api pOriginalCluster) (energyAtDca pTrack))\<^sup>2"

text \<open>The selection policy in the words of the specification.\<close>

definition fragmentsReplaceOriginal ::
  "MipPhotonSeparationApi \<Rightarrow> MipPhotonSeparationSettings \<Rightarrow> Cluster \<Rightarrow> Track
     \<Rightarrow> Cluster option \<Rightarrow> Cluster option \<Rightarrow> bool" where
  "fragmentsReplaceOriginal api cfg pOriginalCluster pTrack pMipCluster pPhotonCluster =
     (\<exists>mipCluster photonCluster.
        pMipCluster = Some mipCluster \<and> pPhotonCluster = Some photonCluster
        \<and> GetNCaloHits photonCluster \<ge> m_minHitsInPhotonCluster cfg
        \<and> (deltaChi2 api pOriginalCluster pTrack mipCluster < m_nonPhotonDeltaChi2Cut cfg
           \<or> (IsPhotonFast api photonCluster
               \<and> deltaChi2 api pOriginalCluster pTrack mipCluster < m_photonDeltaChi2Cut cfg)))"

section \<open>Forced clustering\<close>

record ForcedClusteringSettings =
  m_shouldRunStandardClusteringAlgorithm :: bool
  m_shouldClusterIsolatedHits :: bool
  m_shouldAssociateIsolatedHits :: bool

text \<open>
  Modelled from the spec: the event-wide list service is not among the sources.  The
  event holds the current track list and the current ordered hit list (\<open>None\<close> when
  there is none to read), the current cluster list, and the availability flag of every
  hit.  A cluster pointer is the position of the cluster in the cluster list.
\<close>

record Event =
  currentTrackList :: "Track list option"
  currentOrderedCaloHitList :: "OrderedCaloHitList option"
  currentClusterList :: "Cluster list"
  caloHitAvailable :: "CaloHit \<Rightarrow> bool"

definition GetCurrentTrackList :: "Event \<Rightarrow> StatusCode + Track list" where
  "GetCurrentTrackList ev =
     (case currentTrackList ev of None \<Rightarrow> Inl STATUS_CODE_NOT_INITIALIZED | Some l \<Rightarrow> Inr l)"

definition GetCurrentOrderedCaloHitList :: "Event \<Rightarrow> StatusCode + OrderedCaloHitList" where
  "GetCurrentOrderedCaloHitList ev =
     (case currentOrderedCaloHitList ev of None \<Rightarrow> Inl STATUS_CODE_NOT_INITIALIZED | Some l \<Rightarrow> Inr l)"

definition IsCaloHitAvailable :: "Event \<Rightarrow> CaloHit \<Rightarrow> bool" where
  "IsCaloHitAvailable ev pCaloHit = caloHitAvailable ev pCaloHit"

text \<open>A new cluster goes to the end of the cluster list; its pointer is returned.\<close>

definition Cluster_Create_forTrack :: "Event \<Rightarrow> Track \<Rightarrow> StatusCode + (Event \<times> nat)" where
  "Cluster_Create_forTrack ev pTrack =
     (case Cluster_Create_fromTrack pTrack of
        Inl e \<Rightarrow> Inl e
      | Inr c \<Rightarrow> Inr (ev\<lparr>currentClusterList := currentClusterList ev @ [c]\<rparr>,
                      length (currentClusterList ev)))"

text \<open>
  Adding a hit to a cluster needs the hit to be available and clears its availability.
  A pointer that names no cluster of the list is refused.
\<close>

definition AddCaloHitToCluster :: "Event \<Rightarrow> nat \<Rightarrow> CaloHit \<Rightarrow> StatusCode + Event" where
  "AddCaloHitToCluster ev pCluster pCaloHit =
     (if \<not> pCluster < length (currentClusterList ev) then Inl STATUS_CODE_NOT_FOUND
      else if \<not> caloHitAvailable ev pCaloHit then Inl STATUS_CODE_NOT_ALLOWED
      else Inr (ev\<lparr>currentClusterList :=
                      (currentClusterList ev)
                        [pCluster := Cluster_AddCaloHit (currentClusterList ev ! pCluster) pCaloHit],
                   caloHitAvailable := (caloHitAvailable ev)(pCaloHit := False)\<rparr>))"

text \<open>A cluster made of a hit list needs every hit to be available and takes them all.\<close>

definition Cluster_Create_fromCaloHitList :: "Event \<Rightarrow> CaloHit list \<Rightarrow> StatusCode + (Event \<times> nat)" where
  "Cluster_Create_fromCaloHitList ev hits =
     (if hits = [] then Inl STATUS_CODE_INVALID_PARAMETER
      else if \<exists>h \<in> set hits. \<not> caloHitAvailable ev h then Inl STATUS_CODE_NOT_ALLOWED
      else Inr (ev\<lparr>currentClusterList :=
                      currentClusterList ev @ [foldl Cluster_AddCaloHit emptyCluster hits],
                   caloHitAvailable := (\<lambda>h. caloHitAvailable ev h \<and> h \<notin> set hits)\<rparr>,
                length (currentClusterList ev)))"

definition DeleteClusters :: "Event \<Rightarrow> (Cluster \<Rightarrow> bool) \<Rightarrow> StatusCode + Event" where
  "DeleteClusters ev deleted =
     Inr (ev\<lparr>currentClusterList := filter (\<lambda>c. \<not> deleted c) (currentClusterList ev)\<rparr>)"

text \<open>The distance record of a hit and a track-seeded cluster.\<close>

record TrackDistanceInfo =
  m_pCaloHit :: CaloHit
  m_pCluster :: nat
  m_trackEnergy :: real
  m_trackDistance :: real

text \<open>
  Modelled from the spec: the comparator \<open>SortByDistanceToTrack\<close> is declared in a header
  that is not among the sources; the records are sorted by ascending distance.
\<close>

definition SortByDistanceToTrack :: "TrackDistanceInfo \<Rightarrow> TrackDistanceInfo \<Rightarrow> bool" where
  "SortByDistanceToTrack lhs rhs = (m_trackDistance lhs < m_trackDistance rhs)"

text \<open>
  The collaborators that are not among the sources are parameters: the distance from
  the helix fit of a track to a point, \<open>std::sort\<close> with the comparator above, and the
  two daughter algorithms.  Each returns its status beside its result.
\<close>

record ForcedClusteringApi =
  GetDistanceToPoint :: "Track \<Rightarrow> CartesianVector \<Rightarrow> StatusCode \<times> CartesianVector"
  std_sort :: "TrackDistanceInfo list \<Rightarrow> TrackDistanceInfo list"
  RunStandardClustering :: "Event \<Rightarrow> StatusCode \<times> Event"
  RunIsolatedHitAssociation :: "Event \<Rightarrow> StatusCode \<times> Event"

text \<open>What \<open>std::sort\<close> promises: a permutation in which no later element compares less
  than an earlier one.  The order of elements that compare equal is not promised.\<close>

definition std_sort_contract :: "(TrackDistanceInfo list \<Rightarrow> TrackDistanceInfo list) \<Rightarrow> bool" where
  "std_sort_contract sortVector =
     (\<forall>v. mset (sortVector v) = mset v
          \<and> sorted_wrt (\<lambda>a b. \<not> SortByDistanceToTrack b a) (sortVector v))"

text \<open>The loop over the input hits for one track and its cluster.\<close>

fun collectDistances ::
  "ForcedClusteringApi \<Rightarrow> ForcedClusteringSettings \<Rightarrow> Event \<Rightarrow> Track \<Rightarrow> nat \<Rightarrow> CaloHit list
     \<Rightarrow> TrackDistanceInfo list \<Rightarrow> StatusCode \<times> TrackDistanceInfo list" where
  "collectDistances api cfg ev pTrack pCluster [] trackDistanceInfoVector =
     (STATUS_CODE_SUCCESS, trackDistanceInfoVector)"
| "collectDistances api cfg ev pTrack pCluster (pCaloHit # hits) trackDistanceInfoVector =
     (if IsCaloHitAvailable ev pCaloHit
         \<and> (m_shouldClusterIsolatedHits cfg \<or> \<not> isIsolated pCaloHit) then
        (case GetDistanceToPoint api pTrack (positionVector pCaloHit) of
           (status, helixSeparation) \<Rightarrow>
             if status \<noteq> STATUS_CODE_SUCCESS then (status, trackDistanceInfoVector)
             else collectDistances api cfg ev pTrack pCluster hits
                    (trackDistanceInfoVector @
                      [\<lparr>m_pCaloHit = pCaloHit, m_pCluster = pCluster,
                        m_trackEnergy = energyAtDca pTrack,
                        m_trackDistance = GetMagnitude helixSeparation\<rparr>]))
      else collectDistances api cfg ev pTrack pCluster hits trackDistanceInfoVector)"

text \<open>The loop over the tracks: one new cluster each, and its distance records.\<close>

fun seedClusters ::
  "ForcedClusteringApi \<Rightarrow> ForcedClusteringSettings \<Rightarrow> CaloHit list \<Rightarrow> Track list \<Rightarrow> Event
     \<Rightarrow> TrackDistanceInfo list \<Rightarrow> StatusCode \<times> Event \<times> TrackDistanceInfo list" where
  "seedClusters api cfg inputCaloHitList [] ev trackDistanceInfoVector =
     (STATUS_CODE_SUCCESS, ev, trackDistanceInfoVector)"
| "seedClusters api cfg inputCaloHitList (pTrack # tracks) ev trackDistanceInfoVector =
     (case Cluster_Create_forTrack ev pTrack of
        Inl e \<Rightarrow> (e, ev, trackDistanceInfoVector)
      | Inr (ev', pCluster) \<Rightarrow>
          (case collectDistances api cfg ev' pTrack pCluster inputCaloHitList trackDistanceInfoVector of
             (status, trackDistanceInfoVector') \<Rightarrow>
               if status \<noteq> STATUS_CODE_SUCCESS then (status, ev', trackDistanceInfoVector')
               else seedClusters api cfg inputCaloHitList tracks ev' trackDistanceInfoVector'))"

text \<open>The walk along the sorted records.\<close>

fun assignHits :: "TrackDistanceInfo list \<Rightarrow> Event \<Rightarrow> StatusCode \<times> Event" where
  "assignHits [] ev = (STATUS_CODE_SUCCESS, ev)"
| "assignHits (info # rest) ev =
     (if \<not> m_pCluster info < length (currentClusterList ev) then (STATUS_CODE_NOT_FOUND, ev)
      else if hadronicEnergy (currentClusterList ev ! m_pCluster info) < m_trackEnergy info
              \<and> IsCaloHitAvailable ev (m_pCaloHit info) then
        (case AddCaloHitToCluster ev (m_pCluster info) (m_pCaloHit info) of
           Inl e \<Rightarrow> (e, ev)
         | Inr ev' \<Rightarrow> assignHits rest ev')
      else assignHits rest ev)"

text \<open>Lines 37 to 73: the new clusters, the sort and the walk.\<close>

definition assignmentPass ::
  "ForcedClusteringApi \<Rightarrow> ForcedClusteringSettings \<Rightarrow> CaloHit list \<Rightarrow> Track list \<Rightarrow> Event
     \<Rightarrow> StatusCode \<times> Event" where
  "assignmentPass api cfg inputCaloHitList trackList ev =
     (case seedClusters api cfg inputCaloHitList trackList ev [] of
        (status, ev', trackDistanceInfoVector) \<Rightarrow>
          if status \<noteq> STATUS_CODE_SUCCESS then (status, ev')
          else assignHits (std_sort api trackDistanceInfoVector) ev')"

text \<open>The hits left over: the standard clustering, or one cluster of them all.\<close>

definition collectRemnants ::
  "ForcedClusteringApi \<Rightarrow> ForcedClusteringSettings \<Rightarrow> CaloHit list \<Rightarrow> Event \<Rightarrow> StatusCode \<times> Event" where
  "collectRemnants api cfg inputCaloHitList ev =
     (if m_shouldRunStandardClusteringAlgorithm cfg then RunStandardClustering api ev
      else
        let remnantCaloHitList =
              filter (\<lambda>h. IsCaloHitAvailable ev h \<and> (m_shouldClusterIsolatedHits cfg \<or> \<not> isIsolated h))
                inputCaloHitList
        in if remnantCaloHitList \<noteq> [] then
             (case Cluster_Create_fromCaloHitList ev remnantCaloHitList of
                Inl e \<Rightarrow> (e, ev)
              | Inr (ev', pRemnantCluster) \<Rightarrow> (STATUS_CODE_SUCCESS, ev'))
           else (STATUS_CODE_SUCCESS, ev))"

definition RemoveEmptyClusters :: "Event \<Rightarrow> StatusCode \<times> Event" where
  "RemoveEmptyClusters ev =
     (if filter (\<lambda>c. 0 = GetNCaloHits c) (currentClusterList ev) \<noteq> [] then
        (case DeleteClusters ev (\<lambda>c. 0 = GetNCaloHits c) of
           Inl e \<Rightarrow> (e, ev)
         | Inr ev' \<Rightarrow> (STATUS_CODE_SUCCESS, ev'))
      else (STATUS_CODE_SUCCESS, ev))"

text \<open>
  \<open>Run\<close>: the status and the event as the call leaves it.  The input hit list is a set
  of hits in the source, so a hit is in it once.
\<close>

definition ForcedClusteringAlgorithm_Run ::
  "ForcedClusteringApi \<Rightarrow> ForcedClusteringSettings \<Rightarrow> Event \<Rightarrow> StatusCode \<times> Event" where
  "ForcedClusteringAlgorithm_Run api cfg ev =
     (case GetCurrentTrackList ev of
        Inl e \<Rightarrow> (e, ev)
      | Inr trackList \<Rightarrow>
          if trackList = [] then (STATUS_CODE_INVALID_PARAMETER, ev)
          else
            (case GetCurrentOrderedCaloHitList ev of
               Inl e \<Rightarrow> (e, ev)
             | Inr orderedCaloHitList \<Rightarrow>
                 if orderedCaloHitList = [] then (STATUS_CODE_INVALID_PARAMETER, ev)
                 else
                   let inputCaloHitList = remdups (GetCaloHitList orderedCaloHitList) in
                   (case assignmentPass api cfg inputCaloHitList trackList ev of
                      (status1, ev1) \<Rightarrow>
                        if status1 \<noteq> STATUS_CODE_SUCCESS then (status1, ev1)
                        else
                          (case collectRemnants api cfg inputCaloHitList ev1 of
                             (status2, ev2) \<Rightarrow>
                               if status2 \<noteq> STATUS_CODE_SUCCESS then (status2, ev2)
                               else
                                 (case (if m_shouldAssociateIsolatedHits cfg
                                        then RunIsolatedHitAssociation api ev2
                                        else (STATUS_CODE_SUCCESS, ev2)) of
                                    (status3, ev3) \<Rightarrow>
                                      if status3 \<noteq> STATUS_CODE_SUCCESS then (status3, ev3)
                                      else RemoveEmptyClusters ev3)))))"

text \<open>No hit is in two clusters or twice in one, and a hit in a cluster is not available.\<close>

definition hitsExclusive :: "Event \<Rightarrow> bool" where
  "hitsExclusive ev =
     (distinct (concat (map caloHitList (currentClusterList ev)))
      \<and> (\<forall>h \<in> set (concat (map caloHitList (currentClusterList ev))). \<not> caloHitAvailable ev h))"

text \<open>
  A track-seeded cluster within its cap: it has no hit and no energy, or its energy
  without its last hit is below the energy of its track at the point of closest
  approach.
\<close>

definition energyCapped :: "Cluster \<Rightarrow> bool" where
  "energyCapped c =
     (case associatedTrackList c of
        [t] \<Rightarrow>
          (caloHitList c = [] \<and> hadronicEnergy c = 0)
          \<or> (caloHitList c \<noteq> []
              \<and> hadronicEnergy c - hitHadronicEnergy (last (caloHitList c)) < energyAtDca t)
      | _ \<Rightarrow> False)"

text \<open>The clusters from position \<open>n\<close> on are within their caps, and every record names one
  of them with the energy of its track.\<close>

definition seededFrom :: "nat \<Rightarrow> Event \<Rightarrow> bool" where
  "seededFrom n ev =
     (n \<le> length (currentClusterList ev)
      \<and> (\<forall>i. n \<le> i \<and> i < length (currentClusterList ev) \<longrightarrow> energyCapped (currentClusterList ev ! i)))"

definition recordsFrom :: "nat \<Rightarrow> Event \<Rightarrow> TrackDistanceInfo list \<Rightarrow> bool" where
  "recordsFrom n ev v =
     (\<forall>r \<in> set v. n \<le> m_pCluster r \<and> m_pCluster r < length (currentClusterList ev)
        \<and> (\<exists>t. associatedTrackList (currentClusterList ev ! m_pCluster r) = [t]
                \<and> m_trackEnergy r = energyAtDca t))"


section \<open>Example inputs\<close>

text \<open>The settings \<open>ReadSettings\<close> installs when the configuration names none.\<close>

definition defaultSettings :: MipPhotonSeparationSettings where
  "defaultSettings =
     \<lparr>m_nLayersForMipRegion = 2, m_nLayersForShowerRegion = 2, m_maxLayersMissed = 1,
      m_minMipRegion2Span = 4, m_maxShowerStartLayer = 20, m_minShowerRegionSpan = 4,
      m_maxShowerStartLayer2 = 5, m_minShowerRegionSpan2 = 200,
      m_nonPhotonDeltaChi2Cut = 0, m_photonDeltaChi2Cut = 1, m_minHitsInPhotonCluster = 6,
      m_genericDistanceCut = 1, m_trackPathWidth = 2, m_maxTrackSeparation = 1000,
      m_additionalPadWidthsECal = 5 / 2, m_additionalPadWidthsHCal = 5 / 2\<rparr>"

text \<open>A track entering the calorimeter at the origin, hits at that very point (so
  at distance 0 from the track), and clusters of such hits along the z axis.\<close>

definition originTrack :: Track where
  "originTrack = \<lparr>trackId = 0, energyAtDca = 10, trackStateAtECalPosition = CartesianVector 0 0 0\<rparr>"

definition hitOnTrack :: "nat \<Rightarrow> PseudoLayer \<Rightarrow> bool \<Rightarrow> CaloHit" where
  "hitOnTrack n l mip =
     \<lparr>hitId = n, positionVector = CartesianVector 0 0 0, hitType = ECAL, cellLengthScale = 1,
      pseudoLayer = l, hitHadronicEnergy = 1, isIsolated = False, isPossibleMip = mip\<rparr>"

definition clusterOnTrack :: "CaloHit list \<Rightarrow> Cluster" where
  "clusterOnTrack hits =
     foldl Cluster_AddCaloHit
       (emptyCluster\<lparr>associatedTrackList := [originTrack], initialDirection := CartesianVector 0 0 1\<rparr>)
       hits"

text \<open>A shower hit beside the track, a hit with no cell size, and a hit beyond the
  maximum track separation.\<close>

definition hitOffTrack :: "nat \<Rightarrow> PseudoLayer \<Rightarrow> CaloHit" where
  "hitOffTrack n l =
     \<lparr>hitId = n, positionVector = CartesianVector 10 0 0, hitType = ECAL, cellLengthScale = 1,
      pseudoLayer = l, hitHadronicEnergy = 1, isIsolated = False, isPossibleMip = False\<rparr>"

definition degenerateHit :: "nat \<Rightarrow> PseudoLayer \<Rightarrow> CaloHit" where
  "degenerateHit n l =
     \<lparr>hitId = n, positionVector = CartesianVector 0 0 0, hitType = ECAL, cellLengthScale = 0,
      pseudoLayer = l, hitHadronicEnergy = 1, isIsolated = False, isPossibleMip = False\<rparr>"

definition farHit :: "nat \<Rightarrow> PseudoLayer \<Rightarrow> CaloHit" where
  "farHit n l =
     \<lparr>hitId = n, positionVector = CartesianVector 2000 0 0, hitType = HCAL, cellLengthScale = 1,
      pseudoLayer = l, hitHadronicEnergy = 1, isIsolated = False, isPossibleMip = False\<rparr>"

text \<open>Layers 1 to 4 alternate between a mip hit and a shower hit.\<close>

definition alternatingCluster :: Cluster where
  "alternatingCluster =
     clusterOnTrack [hitOnTrack 1 1 True, hitOnTrack 2 2 False, hitOnTrack 3 3 True, hitOnTrack 4 4 False]"

text \<open>Two shower layers, then three mip layers: the shower region is entered on its
  last shower layer, so no shower end layer is recorded.\<close>

definition showerThenMipCluster :: Cluster where
  "showerThenMipCluster =
     clusterOnTrack [hitOnTrack 1 1 False, hitOnTrack 2 2 False, hitOnTrack 3 3 True,
       hitOnTrack 4 4 True, hitOnTrack 5 5 True]"

text \<open>A mip hit and a shower hit in the shower range, and an isolated hit behind it.\<close>

definition splitCluster :: Cluster where
  "splitCluster =
     (clusterOnTrack [hitOnTrack 1 1 True, hitOffTrack 2 2])
       \<lparr>isolatedCaloHitList := [hitOnTrack 3 7 True]\<rparr>"

text \<open>The same two hits, followed by a hit with no cell size.\<close>

definition brokenCluster :: Cluster where
  "brokenCluster = clusterOnTrack [hitOnTrack 1 1 True, hitOffTrack 2 2, degenerateHit 3 3]"

text \<open>Two sorts by ascending distance: one keeps records at equal distance in the order
  they were met, the other turns that order round.\<close>

definition encounterOrderSort :: "TrackDistanceInfo list \<Rightarrow> TrackDistanceInfo list" where
  "encounterOrderSort v = sort_key m_trackDistance v"

definition reverseTieSort :: "TrackDistanceInfo list \<Rightarrow> TrackDistanceInfo list" where
  "reverseTieSort v = sort_key m_trackDistance (rev v)"

text \<open>Helix fits taken as points (the distance to a hit is the distance to the track's
  position at the calorimeter face), and daughter algorithms that do nothing.\<close>

definition pointTrackApi :: "(TrackDistanceInfo list \<Rightarrow> TrackDistanceInfo list) \<Rightarrow> ForcedClusteringApi" where
  "pointTrackApi sortVector =
     \<lparr>GetDistanceToPoint = (\<lambda>t p. (STATUS_CODE_SUCCESS, vminus p (trackStateAtECalPosition t))),
      std_sort = sortVector,
      RunStandardClustering = (\<lambda>e. (STATUS_CODE_SUCCESS, e)),
      RunIsolatedHitAssociation = (\<lambda>e. (STATUS_CODE_SUCCESS, e))\<rparr>"

definition defaultForcedSettings :: ForcedClusteringSettings where
  "defaultForcedSettings =
     \<lparr>m_shouldRunStandardClusteringAlgorithm = False, m_shouldClusterIsolatedHits = False,
      m_shouldAssociateIsolatedHits = False\<rparr>"

definition trackAt :: "nat \<Rightarrow> real \<Rightarrow> real \<Rightarrow> Track" where
  "trackAt n x e = \<lparr>trackId = n, energyAtDca = e, trackStateAtECalPosition = CartesianVector x 0 0\<rparr>"

definition eventOf :: "Track list \<Rightarrow> CaloHit list \<Rightarrow> Event" where
  "eventOf tracks hits =
     \<lparr>currentTrackList = Some tracks,
      currentOrderedCaloHitList = Some (foldl (\<lambda>m h. insertHit h m) [] hits),
      currentClusterList = [], caloHitAvailable = (\<lambda>h. True)\<rparr>"



text \<open>One track of energy 3/2 and three hits of energy 1 at distances 1, 9 and 1999.\<close>

definition capEvent :: Event where
  "capEvent = eventOf [trackAt 7 1 (3 / 2)] [hitOnTrack 5 1 True, hitOffTrack 6 2, farHit 9 3]"

section \<open>Properties of GetDistanceToTrack\<close>

text \<open>
  C4.  For every cluster, track and hit, \<open>GetDistanceToTrack\<close> returns FAILURE when the
  configured maximum track separation is zero; otherwise UNCHANGED when the raw
  separation between the hit and the track's calorimeter-face position is at least
  the maximum separation; otherwise FAILURE when the cut width is zero; otherwise
  SUCCESS with the distance set to the perpendicular component of the separation
  divided by the cut width.  In the three other cases the distance is left as it was.
\<close>

theorem GetDistanceToTrack_result_contract:
  "GetDistanceToTrack cfg pCluster pTrack pCaloHit distance =
     GetDistanceToTrack_contract cfg pCluster pTrack pCaloHit distance"
  by (cases "hitType pCaloHit")
     (auto simp: GetDistanceToTrack_def GetDistanceToTrack_contract_def rawSeparation_def
        perpendicularDistance_def cutWidth_def Let_def mult_ac)

section \<open>Properties of the layer scan\<close>

lemma scanLayers_unfold:
  "scanLayers cfg c t lastLayer i st =
     (if scanCond lastLayer (i, st) then
        (case scanStep cfg c t (i, st) of (i', st') \<Rightarrow> scanLayers cfg c t lastLayer i' st')
      else Some st)"
  by (subst scanLayers.simps) (simp add: scanCond_def scanStep_def)

lemma scanLayers_iterate:
  "scanLayers cfg c t lastLayer i st = Some y \<Longrightarrow>
     \<exists>n. (\<forall>j<n. scanCond lastLayer ((scanStep cfg c t ^^ j) (i, st)))
        \<and> \<not> scanCond lastLayer ((scanStep cfg c t ^^ n) (i, st))
        \<and> snd ((scanStep cfg c t ^^ n) (i, st)) = y"
proof (induction rule: scanLayers.raw_induct[rotated 1, consumes 1])
  case (1 scanLayers' cfg c t lastLayer i st y)
  show ?case
  proof (cases "scanCond lastLayer (i, st)")
    case False
    with 1(2) have "y = st" by (simp add: scanCond_def split: if_splits)
    with False show ?thesis by (intro exI[of _ 0]) simp
  next
    case True
    with 1(2) have "scanLayers' cfg c t lastLayer (i + 1) (updateRegions cfg i (findTrackHits cfg c t i) st) = Some y"
      by (simp add: scanCond_def)
    from 1(1)[OF this] obtain n where n:
      "\<forall>j<n. scanCond lastLayer ((scanStep cfg c t ^^ j) (scanStep cfg c t (i, st)))"
      "\<not> scanCond lastLayer ((scanStep cfg c t ^^ n) (scanStep cfg c t (i, st)))"
      "snd ((scanStep cfg c t ^^ n) (scanStep cfg c t (i, st))) = y"
      by (auto simp: scanStep_def)
    have "\<forall>j<Suc n. scanCond lastLayer ((scanStep cfg c t ^^ j) (i, st))"
    proof (intro allI impI)
      fix j assume "j < Suc n"
      then show "scanCond lastLayer ((scanStep cfg c t ^^ j) (i, st))"
        using True n(1) by (cases j) (auto simp: funpow_swap1)
    qed
    with n(2,3) show ?thesis
      by (intro exI[of _ "Suc n"]) (simp add: funpow_swap1)
  qed
qed

lemma LAYER_MAX_minus_1: "LAYER_MAX = - 1"
  by (simp add: LAYER_MAX_def)

lemma scanLayers_terminates:
  "lastLayer < LAYER_MAX \<Longrightarrow> \<exists>y. scanLayers cfg c t lastLayer i st = Some y"
proof (induction "Suc (unat lastLayer) - unat i" arbitrary: i st)
  case 0
  then have "\<not> scanCond lastLayer (i, st)" by (simp add: word_le_nat_alt scanCond_def)
  then show ?case by (subst scanLayers_unfold) simp
next
  case (Suc k)
  show ?case
  proof (cases "scanCond lastLayer (i, st)")
    case False
    then show ?thesis by (subst scanLayers_unfold) simp
  next
    case True
    then have "i \<le> lastLayer" by (simp add: scanCond_def)
    with Suc(3) have "i < LAYER_MAX" by simp
    then have "1 + i \<noteq> 0"
      by (auto simp: LAYER_MAX_minus_1 add_eq_0_iff)
    then have "unat (i + 1) = Suc (unat i)"
      by (simp add: unatSuc add.commute)
    with Suc(2) have "k = Suc (unat lastLayer) - unat (i + 1)" by simp
    from Suc(1)[OF this Suc(3)] show ?thesis
      using True by (subst scanLayers_unfold) (simp add: scanStep_def)
  qed
qed

lemma updateRegions_mipRegion1:
  "mipRegion1 st \<Longrightarrow>
     mipRegion1 (updateRegions cfg iLayer fl st) =
       (\<not> (\<not> mipTrackHitFound fl \<and> showerTrackHitFound fl
            \<and> showerCount st + 1 = m_nLayersForShowerRegion cfg))"
  by (auto simp: updateRegions_def mipOnlyLayer_def showerOnlyLayer_def Let_def)

lemma updateRegions_exit:
  "mipRegion1 st \<Longrightarrow> \<not> mipTrackHitFound fl \<Longrightarrow> showerTrackHitFound fl \<Longrightarrow>
   showerCount st + 1 = m_nLayersForShowerRegion cfg \<Longrightarrow>
     showerRegion (updateRegions cfg iLayer fl st) \<and> showerCount (updateRegions cfg iLayer fl st) = 0"
  by (auto simp: updateRegions_def mipOnlyLayer_def showerOnlyLayer_def Let_def)

lemma updateRegions_increment:
  "mipRegion1 st \<Longrightarrow> \<not> mipTrackHitFound fl \<Longrightarrow> showerTrackHitFound fl \<Longrightarrow>
   showerCount st + 1 \<noteq> m_nLayersForShowerRegion cfg \<Longrightarrow>
     showerCount (updateRegions cfg iLayer fl st) = showerCount st + 1"
  by (auto simp: updateRegions_def mipOnlyLayer_def showerOnlyLayer_def Let_def)

lemma updateRegions_reset:
  "mipRegion1 st \<Longrightarrow> mipTrackHitFound fl \<Longrightarrow> \<not> showerTrackHitFound fl \<Longrightarrow>
     showerCount (updateRegions cfg iLayer fl st) = 0"
  by (auto simp: updateRegions_def mipOnlyLayer_def showerOnlyLayer_def Let_def)

lemma updateRegions_noSecondMipRegion:
  "noSecondMipRegion st \<Longrightarrow> noSecondMipRegion (updateRegions cfg iLayer fl st)"
  by (auto simp: noSecondMipRegion_def updateRegions_def mipOnlyLayer_def showerOnlyLayer_def Let_def)

lemma iterate_noSecondMipRegion:
  "noSecondMipRegion st \<Longrightarrow> noSecondMipRegion (snd ((scanStep cfg c t ^^ n) (i, st)))"
proof (induction n)
  case 0
  then show ?case by simp
next
  case (Suc n)
  then show ?case
    by (cases "(scanStep cfg c t ^^ n) (i, st)")
       (simp add: scanStep_def updateRegions_noSecondMipRegion)
qed

lemma never_reached_stays:
  assumes never: "\<forall>n. \<not> showerThresholdReached cfg c t lastLayer i st n"
    and start: "mipRegion1 st"
  shows "(\<forall>j<n. scanCond lastLayer ((scanStep cfg c t ^^ j) (i, st)))
           \<Longrightarrow> mipRegion1 (snd ((scanStep cfg c t ^^ n) (i, st)))"
proof (induction n)
  case 0
  with start show ?case by simp
next
  case (Suc n)
  obtain l s where ls: "(scanStep cfg c t ^^ n) (i, st) = (l, s)"
    by (cases "(scanStep cfg c t ^^ n) (i, st)")
  from Suc have m: "mipRegion1 s" using ls by simp
  from Suc(2) have run: "\<forall>j\<le>n. scanCond lastLayer ((scanStep cfg c t ^^ j) (i, st))"
    by (simp add: less_Suc_eq_le)
  from never have "\<not> showerThresholdReached cfg c t lastLayer i st n" by blast
  with run m ls have
    "\<not> (\<not> mipTrackHitFound (findTrackHits cfg c t l) \<and> showerTrackHitFound (findTrackHits cfg c t l)
        \<and> showerCount s + 1 = m_nLayersForShowerRegion cfg)"
    by (simp add: showerThresholdReached_def)
  with m have "mipRegion1 (updateRegions cfg l (findTrackHits cfg c t l) s)"
    by (simp add: updateRegions_mipRegion1)
  moreover have "(scanStep cfg c t ^^ Suc n) (i, st) = scanStep cfg c t (l, s)"
    using ls by simp
  ultimately show ?case
    by (simp add: scanStep_def)
qed

text \<open>
  C5.  While the scan is in the first mip region, a layer leaves it exactly when it has
  a shower hit and no mip hit and its increment brings the shower count to
  \<open>m_nLayersForShowerRegion\<close>; the scan is then in the shower region with the count
  back at zero.  Such a layer below the threshold increments the count, and a layer
  with a mip hit and no shower hit resets it to zero.  When no layer of the scan
  reaches the threshold, the scan stays in the first mip region,
  \<open>ShouldFragmentCluster\<close> can only return false, and it does return false when the
  outer layer of the cluster is a real layer (below \<open>LAYER_MAX\<close>).
\<close>

theorem region_transition_threshold_law:
  assumes tracks: "associatedTrackList pCluster = pTrack # others"
    and never: "\<forall>n. \<not> showerThresholdReached cfg pCluster pTrack (outerPseudoLayer pCluster)
                        (TRACK_PROJECTION_LAYER + 1) (initialScanState s0 e0) n"
  shows "(mipRegion1 st \<longrightarrow>
            mipRegion1 (updateRegions cfg iLayer fl st) =
              (\<not> (\<not> mipTrackHitFound fl \<and> showerTrackHitFound fl
                   \<and> showerCount st + 1 = m_nLayersForShowerRegion cfg))
          \<and> (\<not> mipTrackHitFound fl \<and> showerTrackHitFound fl \<longrightarrow>
               (if showerCount st + 1 = m_nLayersForShowerRegion cfg
                then showerRegion (updateRegions cfg iLayer fl st)
                     \<and> showerCount (updateRegions cfg iLayer fl st) = 0
                else showerCount (updateRegions cfg iLayer fl st) = showerCount st + 1))
          \<and> (mipTrackHitFound fl \<and> \<not> showerTrackHitFound fl \<longrightarrow>
               showerCount (updateRegions cfg iLayer fl st) = 0))
       \<and> ((\<forall>j<n. scanCond (outerPseudoLayer pCluster)
                    ((scanStep cfg pCluster pTrack ^^ j) (TRACK_PROJECTION_LAYER + 1, initialScanState s0 e0)))
            \<longrightarrow> mipRegion1 (snd ((scanStep cfg pCluster pTrack ^^ n)
                    (TRACK_PROJECTION_LAYER + 1, initialScanState s0 e0))))
       \<and> (\<forall>r. ShouldFragmentCluster cfg TRACK_PROJECTION_LAYER pCluster s0 e0 = Some r \<longrightarrow> \<not> fst r)
       \<and> (outerPseudoLayer pCluster < LAYER_MAX \<longrightarrow>
            (\<exists>s e. ShouldFragmentCluster cfg TRACK_PROJECTION_LAYER pCluster s0 e0 = Some (False, s, e)))"
proof -
  let ?lastLayer = "outerPseudoLayer pCluster"
  let ?i = "TRACK_PROJECTION_LAYER + 1"
  let ?st = "initialScanState s0 e0"
  have start: "mipRegion1 ?st" "noSecondMipRegion ?st"
    by (simp_all add: initialScanState_def noSecondMipRegion_def)
  have stays: "mipRegion1 (snd ((scanStep cfg pCluster pTrack ^^ k) (?i, ?st)))"
    if "\<forall>j<k. scanCond ?lastLayer ((scanStep cfg pCluster pTrack ^^ j) (?i, ?st))" for k
    using never_reached_stays[OF never start(1)] that by blast
  have final: "\<not> fragmentDecision cfg y" if "scanLayers cfg pCluster pTrack ?lastLayer ?i ?st = Some y" for y
  proof -
    from scanLayers_iterate[OF that] obtain k where
      k: "\<forall>j<k. scanCond ?lastLayer ((scanStep cfg pCluster pTrack ^^ j) (?i, ?st))"
         "snd ((scanStep cfg pCluster pTrack ^^ k) (?i, ?st)) = y"
      by blast
    from stays[OF k(1)] k(2) have "mipRegion1 y" by simp
    moreover have "noSecondMipRegion (snd ((scanStep cfg pCluster pTrack ^^ k) (?i, ?st)))"
      by (rule iterate_noSecondMipRegion[OF start(2)])
    with k(2) have "noSecondMipRegion y" by simp
    ultimately show ?thesis by (simp add: noSecondMipRegion_def fragmentDecision_def)
  qed
  have A: "mipRegion1 st \<longrightarrow>
            mipRegion1 (updateRegions cfg iLayer fl st) =
              (\<not> (\<not> mipTrackHitFound fl \<and> showerTrackHitFound fl
                   \<and> showerCount st + 1 = m_nLayersForShowerRegion cfg))
          \<and> (\<not> mipTrackHitFound fl \<and> showerTrackHitFound fl \<longrightarrow>
               (if showerCount st + 1 = m_nLayersForShowerRegion cfg
                then showerRegion (updateRegions cfg iLayer fl st)
                     \<and> showerCount (updateRegions cfg iLayer fl st) = 0
                else showerCount (updateRegions cfg iLayer fl st) = showerCount st + 1))
          \<and> (mipTrackHitFound fl \<and> \<not> showerTrackHitFound fl \<longrightarrow>
               showerCount (updateRegions cfg iLayer fl st) = 0)"
    using updateRegions_mipRegion1 updateRegions_exit updateRegions_increment updateRegions_reset
    by simp
  have B: "\<forall>r. ShouldFragmentCluster cfg TRACK_PROJECTION_LAYER pCluster s0 e0 = Some r \<longrightarrow> \<not> fst r"
    using final tracks
    by (auto simp: ShouldFragmentCluster_def scanCluster_def split: option.splits)
  have C: "outerPseudoLayer pCluster < LAYER_MAX \<longrightarrow>
            (\<exists>s e. ShouldFragmentCluster cfg TRACK_PROJECTION_LAYER pCluster s0 e0 = Some (False, s, e))"
  proof
    assume "outerPseudoLayer pCluster < LAYER_MAX"
    from scanLayers_terminates[OF this] obtain y where
      y: "scanLayers cfg pCluster pTrack ?lastLayer ?i ?st = Some y" by blast
    with final[OF y] tracks show
      "\<exists>s e. ShouldFragmentCluster cfg TRACK_PROJECTION_LAYER pCluster s0 e0 = Some (False, s, e)"
      by (simp add: ShouldFragmentCluster_def scanCluster_def)
  qed
  from A stays B C show ?thesis by blast
qed

section \<open>The scan on example clusters\<close>

lemma scanHit_hitOnTrack:
  "scanHit defaultSettings c originTrack fl (hitOnTrack n l mip) =
     (if mip then fl\<lparr>trackHitFound := True, mipTrackHitFound := True\<rparr>
      else fl\<lparr>trackHitFound := True, showerTrackHitFound := True\<rparr>)"
  by (cases "initialDirection c")
     (simp add: scanHit_def GetDistanceToTrack_def defaultSettings_def originTrack_def hitOnTrack_def)

lemma alternatingCluster_fields:
  "associatedTrackList alternatingCluster = [originTrack]"
  "outerPseudoLayer alternatingCluster = 4"
  "GetOrderedCaloHitList alternatingCluster =
     [(1, [hitOnTrack 1 1 True]), (2, [hitOnTrack 2 2 False]), (3, [hitOnTrack 3 3 True]),
      (4, [hitOnTrack 4 4 False])]"
  by (simp_all add: alternatingCluster_def clusterOnTrack_def Cluster_AddCaloHit_def emptyCluster_def
        GetOrderedCaloHitList_def hitOnTrack_def)

lemma alternatingCluster_flags:
  "findTrackHits defaultSettings alternatingCluster originTrack 1
     = \<lparr>trackHitFound = True, mipTrackHitFound = True, showerTrackHitFound = False\<rparr>"
  "findTrackHits defaultSettings alternatingCluster originTrack 2
     = \<lparr>trackHitFound = True, mipTrackHitFound = False, showerTrackHitFound = True\<rparr>"
  "findTrackHits defaultSettings alternatingCluster originTrack 3
     = \<lparr>trackHitFound = True, mipTrackHitFound = True, showerTrackHitFound = False\<rparr>"
  "findTrackHits defaultSettings alternatingCluster originTrack 4
     = \<lparr>trackHitFound = True, mipTrackHitFound = False, showerTrackHitFound = True\<rparr>"
  by (simp_all add: findTrackHits_def OrderedCaloHitList_find_def alternatingCluster_fields
        scanHit_hitOnTrack noTrackHit_def)

lemma alternatingCluster_never_reached:
  "\<forall>n. \<not> showerThresholdReached defaultSettings alternatingCluster originTrack 4 1
          (initialScanState LAYER_MAX LAYER_MAX) n"
proof -
  let ?f = "scanStep defaultSettings alternatingCluster originTrack"
  let ?S0 = "initialScanState LAYER_MAX LAYER_MAX"
  let ?S1 = "?S0\<lparr>mipRegion1StartLayer := 1, mipRegion1EndLayer := 1\<rparr>"
  let ?S2 = "?S0\<lparr>showerStartLayer := 2, mipRegion1StartLayer := 1, mipRegion1EndLayer := 1, showerCount := 1\<rparr>"
  let ?S3 = "?S0\<lparr>showerStartLayer := 2, mipRegion1StartLayer := 1, mipRegion1EndLayer := 3, showerCount := 0\<rparr>"
  let ?S4 = "?S0\<lparr>showerStartLayer := 4, mipRegion1StartLayer := 1, mipRegion1EndLayer := 3, showerCount := 1\<rparr>"
  note defs = updateRegions_def mipOnlyLayer_def
    showerOnlyLayer_def initialScanState_def Let_def defaultSettings_def LAYER_MAX_def
  have t1: "?f (1, ?S0) = (2, ?S1)"
    unfolding scanStep_def prod.case alternatingCluster_flags by (simp add: defs)
  have t2: "?f (2, ?S1) = (3, ?S2)"
    unfolding scanStep_def prod.case alternatingCluster_flags by (simp add: defs)
  have t3: "?f (3, ?S2) = (4, ?S3)"
    unfolding scanStep_def prod.case alternatingCluster_flags by (simp add: defs)
  have t4: "?f (4, ?S3) = (5, ?S4)"
    unfolding scanStep_def prod.case alternatingCluster_flags by (simp add: defs)
  have i0: "(?f ^^ 0) (1, ?S0) = (1, ?S0)" by simp
  have i1: "(?f ^^ Suc 0) (1, ?S0) = (2, ?S1)"
    by (simp only: funpow.simps o_apply id_apply t1)
  have i2: "(?f ^^ Suc (Suc 0)) (1, ?S0) = (3, ?S2)"
    by (simp only: funpow.simps o_apply id_apply t1 t2)
  have i3: "(?f ^^ Suc (Suc (Suc 0))) (1, ?S0) = (4, ?S3)"
    by (simp only: funpow.simps o_apply id_apply t1 t2 t3)
  have i4: "(?f ^^ Suc (Suc (Suc (Suc 0)))) (1, ?S0) = (5, ?S4)"
    by (simp only: funpow.simps o_apply id_apply t1 t2 t3 t4)
  have stop: "\<not> scanCond 4 (5, ?S4)" by (simp add: scanCond_def)
  have n0: "\<not> mipTrackHitFound (findTrackHits defaultSettings alternatingCluster originTrack 1)
              \<longrightarrow> False"
    by (simp add: alternatingCluster_flags)
  have n1: "showerCount ?S1 + 1 \<noteq> m_nLayersForShowerRegion defaultSettings"
    by (simp add: initialScanState_def defaultSettings_def)
  have n2: "mipTrackHitFound (findTrackHits defaultSettings alternatingCluster originTrack 3)"
    by (simp add: alternatingCluster_flags)
  have n3: "showerCount ?S3 + 1 \<noteq> m_nLayersForShowerRegion defaultSettings"
    by (simp add: initialScanState_def defaultSettings_def)
  show ?thesis
  proof
    fix n
    consider "n = 0" | "n = Suc 0" | "n = Suc (Suc 0)" | "n = Suc (Suc (Suc 0))"
      | "Suc (Suc (Suc (Suc 0))) \<le> n"
      by linarith
    then show "\<not> showerThresholdReached defaultSettings alternatingCluster originTrack 4 1 ?S0 n"
    proof cases
      case 1
      with n0 show ?thesis unfolding showerThresholdReached_def 1 i0 by simp
    next
      case 2
      with n1 show ?thesis unfolding showerThresholdReached_def 2 i1 by simp
    next
      case 3
      with n2 show ?thesis unfolding showerThresholdReached_def 3 i2 by simp
    next
      case 4
      with n3 show ?thesis unfolding showerThresholdReached_def 4 i3 by simp
    next
      case 5
      show ?thesis
      proof
        assume "showerThresholdReached defaultSettings alternatingCluster originTrack 4 1 ?S0 n"
        then have "\<forall>j\<le>n. scanCond 4 ((?f ^^ j) (1, ?S0))"
          by (simp add: showerThresholdReached_def)
        with 5 have "scanCond 4 ((?f ^^ Suc (Suc (Suc (Suc 0)))) (1, ?S0))" by blast
        with i4 stop show False by simp
      qed
    qed
  qed
qed

theorem region_transition_threshold_law_witness:
  "associatedTrackList alternatingCluster = [originTrack]
   \<and> (\<forall>n. \<not> showerThresholdReached defaultSettings alternatingCluster originTrack
              (outerPseudoLayer alternatingCluster) (0 + 1) (initialScanState LAYER_MAX LAYER_MAX) n)
   \<and> outerPseudoLayer alternatingCluster < LAYER_MAX
   \<and> (\<exists>s e. ShouldFragmentCluster defaultSettings 0 alternatingCluster LAYER_MAX LAYER_MAX
               = Some (False, s, e))
   \<and> mipRegion1 ((initialScanState LAYER_MAX LAYER_MAX)\<lparr>showerCount := 1\<rparr>)
   \<and> showerCount ((initialScanState LAYER_MAX LAYER_MAX)\<lparr>showerCount := 1\<rparr>) + 1
       = m_nLayersForShowerRegion defaultSettings
   \<and> \<not> mipRegion1
         (updateRegions defaultSettings 2
            \<lparr>trackHitFound = True, mipTrackHitFound = False, showerTrackHitFound = True\<rparr>
            ((initialScanState LAYER_MAX LAYER_MAX)\<lparr>showerCount := 1\<rparr>))
   \<and> showerRegion
         (updateRegions defaultSettings 2
            \<lparr>trackHitFound = True, mipTrackHitFound = False, showerTrackHitFound = True\<rparr>
            ((initialScanState LAYER_MAX LAYER_MAX)\<lparr>showerCount := 1\<rparr>))
   \<and> mipRegion1
         (updateRegions defaultSettings 2
            \<lparr>trackHitFound = True, mipTrackHitFound = False, showerTrackHitFound = True\<rparr>
            (initialScanState LAYER_MAX LAYER_MAX))
   \<and> showerCount
         (updateRegions defaultSettings 2
            \<lparr>trackHitFound = True, mipTrackHitFound = False, showerTrackHitFound = True\<rparr>
            (initialScanState LAYER_MAX LAYER_MAX)) = 1"
proof -
  let ?fl = "\<lparr>trackHitFound = True, mipTrackHitFound = False, showerTrackHitFound = True\<rparr>"
  let ?st0 = "initialScanState LAYER_MAX LAYER_MAX"
  let ?st1 = "(initialScanState LAYER_MAX LAYER_MAX)\<lparr>showerCount := 1\<rparr>"
  have tracks: "associatedTrackList alternatingCluster = originTrack # []"
    by (simp add: alternatingCluster_fields)
  have never: "\<forall>n. \<not> showerThresholdReached defaultSettings alternatingCluster originTrack
              (outerPseudoLayer alternatingCluster) (0 + 1) (initialScanState LAYER_MAX LAYER_MAX) n"
    using alternatingCluster_never_reached by (simp add: alternatingCluster_fields)
  have real: "outerPseudoLayer alternatingCluster < LAYER_MAX"
    by (simp add: alternatingCluster_fields LAYER_MAX_def)
  have flags: "\<not> mipTrackHitFound ?fl" "showerTrackHitFound ?fl" by simp_all
  have at1: "mipRegion1 ?st1" "showerCount ?st1 + 1 = m_nLayersForShowerRegion defaultSettings"
    by (simp_all add: initialScanState_def defaultSettings_def)
  have at0: "mipRegion1 ?st0" "showerCount ?st0 + 1 \<noteq> m_nLayersForShowerRegion defaultSettings"
    "showerCount ?st0 + 1 = 1"
    by (simp_all add: initialScanState_def defaultSettings_def)
  from region_transition_threshold_law[OF tracks never, where st = ?st1 and fl = ?fl and iLayer = 2]
    flags at1
  have exit: "\<not> mipRegion1 (updateRegions defaultSettings 2 ?fl ?st1)"
    "showerRegion (updateRegions defaultSettings 2 ?fl ?st1)"
    by simp_all
  from region_transition_threshold_law[OF tracks never, where st = ?st0 and fl = ?fl and iLayer = 2]
    flags at0(1,2)
  have "mipRegion1 (updateRegions defaultSettings 2 ?fl ?st0)"
    "showerCount (updateRegions defaultSettings 2 ?fl ?st0) = showerCount ?st0 + 1"
    by simp_all
  with at0(3) have stay: "mipRegion1 (updateRegions defaultSettings 2 ?fl ?st0)"
    "showerCount (updateRegions defaultSettings 2 ?fl ?st0) = 1"
    by simp_all
  from region_transition_threshold_law[OF tracks never] real
  have "\<exists>s e. ShouldFragmentCluster defaultSettings 0 alternatingCluster LAYER_MAX LAYER_MAX
               = Some (False, s, e)"
    by blast
  with tracks never real at1 exit stay show ?thesis by blast
qed

section \<open>The fragmentation decision\<close>

lemma showerThenMipCluster_fields:
  "associatedTrackList showerThenMipCluster = [originTrack]"
  "outerPseudoLayer showerThenMipCluster = 5"
  "GetOrderedCaloHitList showerThenMipCluster =
     [(1, [hitOnTrack 1 1 False]), (2, [hitOnTrack 2 2 False]), (3, [hitOnTrack 3 3 True]),
      (4, [hitOnTrack 4 4 True]), (5, [hitOnTrack 5 5 True])]"
  by (simp_all add: showerThenMipCluster_def clusterOnTrack_def Cluster_AddCaloHit_def emptyCluster_def
        GetOrderedCaloHitList_def hitOnTrack_def)

lemma showerThenMipCluster_flags:
  "findTrackHits defaultSettings showerThenMipCluster originTrack 1
     = \<lparr>trackHitFound = True, mipTrackHitFound = False, showerTrackHitFound = True\<rparr>"
  "findTrackHits defaultSettings showerThenMipCluster originTrack 2
     = \<lparr>trackHitFound = True, mipTrackHitFound = False, showerTrackHitFound = True\<rparr>"
  "findTrackHits defaultSettings showerThenMipCluster originTrack 3
     = \<lparr>trackHitFound = True, mipTrackHitFound = True, showerTrackHitFound = False\<rparr>"
  "findTrackHits defaultSettings showerThenMipCluster originTrack 4
     = \<lparr>trackHitFound = True, mipTrackHitFound = True, showerTrackHitFound = False\<rparr>"
  "findTrackHits defaultSettings showerThenMipCluster originTrack 5
     = \<lparr>trackHitFound = True, mipTrackHitFound = True, showerTrackHitFound = False\<rparr>"
  by (simp_all add: findTrackHits_def OrderedCaloHitList_find_def showerThenMipCluster_fields
        scanHit_hitOnTrack noTrackHit_def)

lemma showerThenMipCluster_scan:
  "scanLayers defaultSettings showerThenMipCluster originTrack 5 1 (initialScanState LAYER_MAX LAYER_MAX)
     = Some ((initialScanState LAYER_MAX LAYER_MAX)
         \<lparr>showerStartLayer := 1, mipRegion2StartLayer := 3, mipRegion2EndLayer := 5, mipCount := 2,
          mipRegion1 := False, mipRegion2 := True\<rparr>)"
proof -
  let ?f = "scanStep defaultSettings showerThenMipCluster originTrack"
  let ?scan = "scanLayers defaultSettings showerThenMipCluster originTrack 5"
  let ?S0 = "initialScanState LAYER_MAX LAYER_MAX"
  let ?S1 = "?S0\<lparr>showerStartLayer := 1, showerCount := 1\<rparr>"
  let ?S2 = "?S0\<lparr>showerStartLayer := 1, mipRegion1 := False, showerRegion := True\<rparr>"
  let ?S3 = "?S0\<lparr>showerStartLayer := 1, mipRegion2StartLayer := 3, mipCount := 1,
                mipRegion1 := False, showerRegion := True\<rparr>"
  let ?S4 = "?S0\<lparr>showerStartLayer := 1, mipRegion2StartLayer := 3, mipCount := 2,
                mipRegion1 := False, mipRegion2 := True\<rparr>"
  let ?S5 = "?S0\<lparr>showerStartLayer := 1, mipRegion2StartLayer := 3, mipRegion2EndLayer := 5, mipCount := 2,
                mipRegion1 := False, mipRegion2 := True\<rparr>"
  note defs = updateRegions_def mipOnlyLayer_def showerOnlyLayer_def initialScanState_def Let_def
    defaultSettings_def LAYER_MAX_def
  have t1: "?f (1, ?S0) = (2, ?S1)"
    unfolding scanStep_def prod.case showerThenMipCluster_flags by (simp add: defs)
  have t2: "?f (2, ?S1) = (3, ?S2)"
    unfolding scanStep_def prod.case showerThenMipCluster_flags by (simp add: defs)
  have t3: "?f (3, ?S2) = (4, ?S3)"
    unfolding scanStep_def prod.case showerThenMipCluster_flags by (simp add: defs)
  have t4: "?f (4, ?S3) = (5, ?S4)"
    unfolding scanStep_def prod.case showerThenMipCluster_flags by (simp add: defs)
  have t5: "?f (5, ?S4) = (6, ?S5)"
    unfolding scanStep_def prod.case showerThenMipCluster_flags by (simp add: defs)
  have c: "scanCond 5 (1, ?S0)" "scanCond 5 (2, ?S1)" "scanCond 5 (3, ?S2)" "scanCond 5 (4, ?S3)"
    "scanCond 5 (5, ?S4)" "\<not> scanCond 5 (6, ?S5)"
    by (simp_all add: scanCond_def initialScanState_def)
  have "?scan 6 ?S5 = Some ?S5"
    by (subst scanLayers_unfold) (simp only: c if_False)
  then have "?scan 5 ?S4 = Some ?S5"
    by (subst scanLayers_unfold) (simp only: c if_True t5 prod.case)
  then have "?scan 4 ?S3 = Some ?S5"
    by (subst scanLayers_unfold) (simp only: c if_True t4 prod.case)
  then have "?scan 3 ?S2 = Some ?S5"
    by (subst scanLayers_unfold) (simp only: c if_True t3 prod.case)
  then have "?scan 2 ?S1 = Some ?S5"
    by (subst scanLayers_unfold) (simp only: c if_True t2 prod.case)
  then show "?scan 1 ?S0 = Some ?S5"
    by (subst scanLayers_unfold) (simp only: c if_True t1 prod.case)
qed

text \<open>
  With the default settings the scan of \<open>showerThenMipCluster\<close> ends with a second mip
  region (layers 3 to 5), a shower start layer 1 and no shower end layer.  The source
  answers false; the decision worded without the test that a shower end layer was
  found answers true, through its last alternative.
\<close>

theorem fragmentation_decision_counterexample:
  "ShouldFragmentCluster defaultSettings 0 showerThenMipCluster LAYER_MAX LAYER_MAX
     = Some (False, 1, LAYER_MAX)
   \<and> map_option (fragmentDecision_spec defaultSettings)
       (scanCluster defaultSettings 0 showerThenMipCluster LAYER_MAX LAYER_MAX) = Some True"
proof -
  have scan: "scanCluster defaultSettings 0 showerThenMipCluster LAYER_MAX LAYER_MAX
     = Some ((initialScanState LAYER_MAX LAYER_MAX)
         \<lparr>showerStartLayer := 1, mipRegion2StartLayer := 3, mipRegion2EndLayer := 5, mipCount := 2,
          mipRegion1 := False, mipRegion2 := True\<rparr>)"
    by (simp add: scanCluster_def showerThenMipCluster_fields showerThenMipCluster_scan)
  show ?thesis
    unfolding ShouldFragmentCluster_def scan
    by (simp add: fragmentDecision_def fragmentDecision_spec_def
          initialScanState_def defaultSettings_def LAYER_MAX_def)
qed

text \<open>
  C6, as the source has it.  \<open>ShouldFragmentCluster\<close> returns true only if \<open>mipRegion2EndLayer\<close> has
  left the sentinel \<open>LAYER_MAX\<close>; given that, it returns true when a shower end layer was
  found and no shower start layer was recorded; otherwise when the span of the second
  mip region exceeds \<open>m_minMipRegion2Span\<close>, the shower start layer is below
  \<open>m_maxShowerStartLayer\<close>, a shower end layer was found and the shower span exceeds
  \<open>m_minShowerRegionSpan\<close>; otherwise when the shower start layer is below
  \<open>m_maxShowerStartLayer2\<close>, a shower end layer was found and the shower span exceeds
  \<open>m_minShowerRegionSpan2\<close>; otherwise false.  The spans are differences of unsigned
  32-bit layers.
\<close>

theorem fragmentation_decision_structure:
  "ShouldFragmentCluster cfg TRACK_PROJECTION_LAYER pCluster showerStart showerEnd =
     map_option (\<lambda>st. (fragmentDecision_guarded cfg st, showerStartLayer st, showerEndLayer st))
       (scanCluster cfg TRACK_PROJECTION_LAYER pCluster showerStart showerEnd)"
  by (auto simp: ShouldFragmentCluster_def fragmentDecision_def fragmentDecision_guarded_def
        split: option.splits)

section \<open>Properties of the fragmentation\<close>

lemma mset_insertHit:
  "mset (GetCaloHitList (insertHit h m)) = add_mset h (mset (GetCaloHitList m))"
  by (induction m) (auto simp: GetCaloHitList_def)

lemma wellFiled_Cons:
  "wellFiled ((l, hs) # m) = ((\<forall>h \<in> set hs. pseudoLayer h = l) \<and> wellFiled m)"
  by (auto simp: wellFiled_def)

lemma wellFiled_insertHit: "wellFiled m \<Longrightarrow> wellFiled (insertHit h m)"
proof (induction m)
  case Nil
  then show ?case by (simp add: wellFiled_def)
next
  case (Cons a m)
  obtain l hs where a: "a = (l, hs)" by (cases a)
  with Cons show ?case by (simp add: wellFiled_Cons)
qed

lemma OrderedCaloHitList_Add_status:
  "OrderedCaloHitList_Add m hs = Inl e \<Longrightarrow> e = STATUS_CODE_ALREADY_PRESENT"
  by (induction hs arbitrary: m) (auto split: if_splits)

lemma foldl_insertHit:
  "mset (GetCaloHitList (foldl (\<lambda>m h. insertHit h m) m hs)) = mset (GetCaloHitList m) + mset hs
   \<and> (wellFiled m \<longrightarrow> wellFiled (foldl (\<lambda>m h. insertHit h m) m hs))"
  by (induction hs arbitrary: m) (auto simp: mset_insertHit wellFiled_insertHit)

lemma GetOrderedCaloHitList_hits:
  "mset (GetCaloHitList (GetOrderedCaloHitList c)) = mset (caloHitList c)"
  "wellFiled (GetOrderedCaloHitList c)"
  using foldl_insertHit[of "[]" "caloHitList c"]
  by (simp_all add: GetOrderedCaloHitList_def GetCaloHitList_def wellFiled_def)

lemma OrderedCaloHitList_Add_hits:
  "OrderedCaloHitList_Add m hs = Inr m' \<Longrightarrow>
     mset (GetCaloHitList m') = mset (GetCaloHitList m) + mset hs \<and> (wellFiled m \<longrightarrow> wellFiled m')"
  by (induction hs arbitrary: m) (auto simp: mset_insertHit wellFiled_insertHit split: if_splits)

lemma fragmentHit_success:
  assumes "fragmentHit cfg s e orig t iLayer (m, p) h = (STATUS_CODE_SUCCESS, m', p')"
  shows "if snd (GetDistanceToTrack cfg orig t h 0) < m_genericDistanceCut cfg \<or> iLayer < s \<or> iLayer > e
         then fragmentHitList m' = fragmentHitList m @ [h] \<and> h \<notin> set (fragmentHitList m)
              \<and> fragmentHitList p' = fragmentHitList p
         else fragmentHitList p' = fragmentHitList p @ [h] \<and> h \<notin> set (fragmentHitList p)
              \<and> fragmentHitList m' = fragmentHitList m"
  using assms
  by (cases "GetDistanceToTrack cfg orig t h 0")
     (auto simp: fragmentHit_def fragmentHitList_def Cluster_Create_fromTrack_def
        Cluster_Create_fromCaloHit_def Fragment_AddCaloHitToCluster_def Cluster_AddCaloHit_def
        emptyCluster_def
        split: if_splits option.splits sum.splits)

lemma fragmentHit_sortedByRule:
  assumes "fragmentHit cfg s e orig t (pseudoLayer h) (m, p) h = (STATUS_CODE_SUCCESS, m', p')"
    and "sortedByRule cfg s e orig t m p"
  shows "sortedByRule cfg s e orig t m' p'
         \<and> mset (fragmentHitList m') + mset (fragmentHitList p')
             = add_mset h (mset (fragmentHitList m) + mset (fragmentHitList p))"
proof (cases "belongsToMipFragment cfg s e orig t h")
  case True
  with fragmentHit_success[OF assms(1)] have
    "fragmentHitList m' = fragmentHitList m @ [h]" "h \<notin> set (fragmentHitList m)"
    "fragmentHitList p' = fragmentHitList p"
    by (simp_all add: belongsToMipFragment_def)
  with assms(2) True show ?thesis by (simp add: sortedByRule_def)
next
  case False
  with fragmentHit_success[OF assms(1)] have
    "fragmentHitList p' = fragmentHitList p @ [h]" "h \<notin> set (fragmentHitList p)"
    "fragmentHitList m' = fragmentHitList m"
    by (simp_all add: belongsToMipFragment_def)
  with assms(2) False show ?thesis by (simp add: sortedByRule_def)
qed

lemma fragmentHits_success:
  assumes "fragmentHits cfg s e orig t iLayer hs (m, p) = (STATUS_CODE_SUCCESS, m', p')"
    and "\<forall>h \<in> set hs. pseudoLayer h = iLayer"
    and "sortedByRule cfg s e orig t m p"
  shows "sortedByRule cfg s e orig t m' p'
         \<and> mset (fragmentHitList m') + mset (fragmentHitList p')
             = mset (fragmentHitList m) + mset (fragmentHitList p) + mset hs"
  using assms
proof (induction hs arbitrary: m p)
  case Nil
  then show ?case by simp
next
  case (Cons h hs)
  obtain st m1 p1 where step: "fragmentHit cfg s e orig t iLayer (m, p) h = (st, m1, p1)"
    by (cases "fragmentHit cfg s e orig t iLayer (m, p) h") auto
  with Cons.prems(1) have st: "st = STATUS_CODE_SUCCESS"
    and rest: "fragmentHits cfg s e orig t iLayer hs (m1, p1) = (STATUS_CODE_SUCCESS, m', p')"
    by (auto split: if_splits)
  from Cons.prems(2) have layer: "pseudoLayer h = iLayer" by simp
  from fragmentHit_sortedByRule[of cfg s e orig t h m p m1 p1] step st layer Cons.prems(3)
  have one: "sortedByRule cfg s e orig t m1 p1"
    "mset (fragmentHitList m1) + mset (fragmentHitList p1)
       = add_mset h (mset (fragmentHitList m) + mset (fragmentHitList p))"
    by simp_all
  from Cons.IH[OF rest _ one(1)] Cons.prems(2) one(2) show ?case by simp
qed

lemma fragmentLayers_success:
  assumes "fragmentLayers cfg s e orig t layers (m, p) = (STATUS_CODE_SUCCESS, m', p')"
    and "wellFiled layers"
    and "sortedByRule cfg s e orig t m p"
  shows "sortedByRule cfg s e orig t m' p'
         \<and> mset (fragmentHitList m') + mset (fragmentHitList p')
             = mset (fragmentHitList m) + mset (fragmentHitList p) + mset (GetCaloHitList layers)"
  using assms
proof (induction layers arbitrary: m p)
  case Nil
  then show ?case by (simp add: GetCaloHitList_def)
next
  case (Cons lh layers)
  obtain iLayer hs where lh: "lh = (iLayer, hs)" by (cases lh)
  obtain st m1 p1 where step: "fragmentHits cfg s e orig t iLayer hs (m, p) = (st, m1, p1)"
    by (cases "fragmentHits cfg s e orig t iLayer hs (m, p)") auto
  with Cons.prems(1) lh have st: "st = STATUS_CODE_SUCCESS"
    and rest: "fragmentLayers cfg s e orig t layers (m1, p1) = (STATUS_CODE_SUCCESS, m', p')"
    by (auto split: if_splits)
  from Cons.prems(2) lh have filed: "\<forall>h \<in> set hs. pseudoLayer h = iLayer" "wellFiled layers"
    by (simp_all add: wellFiled_Cons)
  from fragmentHits_success[OF step[unfolded st] filed(1) Cons.prems(3)]
  have one: "sortedByRule cfg s e orig t m1 p1"
    "mset (fragmentHitList m1) + mset (fragmentHitList p1)
       = mset (fragmentHitList m) + mset (fragmentHitList p) + mset hs"
    by simp_all
  from Cons.IH[OF rest filed(2) one(1)] one(2) lh show ?case
    by (simp add: GetCaloHitList_def)
qed

text \<open>
  C3, as the source has it.  For every call of \<open>MakeClusterFragments\<close>, on null fragment pointers,
  that returns \<open>STATUS_CODE_SUCCESS\<close>: the hits of the two fragments together are the
  ordinary and isolated hits of the original cluster, each once; a hit of the
  original cluster is in the mip fragment exactly when its distance (as the call
  leaves it) is below the generic cut or its layer is outside the shower range, and
  in the photon fragment exactly when not.
\<close>

theorem fragmentation_round_trip:
  assumes call: "MakeClusterFragments cfg showerStart showerEnd pOriginalCluster None None
                   = Some (STATUS_CODE_SUCCESS, pMipCluster, pPhotonCluster)"
    and track: "associatedTrackList pOriginalCluster = pTrack # others"
  shows "mset (fragmentHitList pMipCluster) + mset (fragmentHitList pPhotonCluster)
           = mset (caloHitList pOriginalCluster) + mset (isolatedCaloHitList pOriginalCluster)
         \<and> distinct (fragmentHitList pMipCluster @ fragmentHitList pPhotonCluster)
         \<and> (\<forall>h \<in> set (caloHitList pOriginalCluster) \<union> set (isolatedCaloHitList pOriginalCluster).
              (h \<in> set (fragmentHitList pMipCluster)
                 = belongsToMipFragment cfg showerStart showerEnd pOriginalCluster pTrack h)
              \<and> (h \<in> set (fragmentHitList pPhotonCluster)
                 = (\<not> belongsToMipFragment cfg showerStart showerEnd pOriginalCluster pTrack h)))"
proof -
  from call track obtain layers where
    merged: "OrderedCaloHitList_Add (GetOrderedCaloHitList pOriginalCluster)
               (isolatedCaloHitList pOriginalCluster) = Inr layers"
    and frag: "fragmentLayers cfg showerStart showerEnd pOriginalCluster pTrack layers (None, None)
                 = (STATUS_CODE_SUCCESS, pMipCluster, pPhotonCluster)"
    by (auto simp: MakeClusterFragments_def split: sum.splits dest: OrderedCaloHitList_Add_status)
  from OrderedCaloHitList_Add_hits[OF merged] GetOrderedCaloHitList_hits[of pOriginalCluster]
  have layers: "mset (GetCaloHitList layers)
                  = mset (caloHitList pOriginalCluster) + mset (isolatedCaloHitList pOriginalCluster)"
    "wellFiled layers"
    by simp_all
  have start: "sortedByRule cfg showerStart showerEnd pOriginalCluster pTrack None None"
    by (simp add: sortedByRule_def fragmentHitList_def)
  from fragmentLayers_success[OF frag layers(2) start] layers(1)
  have rule: "sortedByRule cfg showerStart showerEnd pOriginalCluster pTrack pMipCluster pPhotonCluster"
    and all: "mset (fragmentHitList pMipCluster) + mset (fragmentHitList pPhotonCluster)
           = mset (caloHitList pOriginalCluster) + mset (isolatedCaloHitList pOriginalCluster)"
    by (simp_all add: fragmentHitList_def)
  from all have sets: "set (fragmentHitList pMipCluster) \<union> set (fragmentHitList pPhotonCluster)
           = set (caloHitList pOriginalCluster) \<union> set (isolatedCaloHitList pOriginalCluster)"
    by (metis set_mset_mset set_mset_union)
  from rule have "distinct (fragmentHitList pMipCluster @ fragmentHitList pPhotonCluster)"
    by (auto simp: sortedByRule_def)
  moreover from rule sets have
    "\<forall>h \<in> set (caloHitList pOriginalCluster) \<union> set (isolatedCaloHitList pOriginalCluster).
        (h \<in> set (fragmentHitList pMipCluster)
           = belongsToMipFragment cfg showerStart showerEnd pOriginalCluster pTrack h)
        \<and> (h \<in> set (fragmentHitList pPhotonCluster)
           = (\<not> belongsToMipFragment cfg showerStart showerEnd pOriginalCluster pTrack h))"
    unfolding sortedByRule_def by blast
  ultimately show ?thesis using all by blast
qed

section \<open>The fragmentation on example clusters\<close>

lemma GetMagnitude_x_axis: "GetMagnitude (CartesianVector a 0 0) = \<bar>a\<bar>"
  by simp

lemma clusterOnTrack_direction: "initialDirection (clusterOnTrack hits) = CartesianVector 0 0 1"
proof -
  have "initialDirection (foldl Cluster_AddCaloHit c hits) = initialDirection c" for c
    by (induction hits arbitrary: c) (simp_all add: Cluster_AddCaloHit_def)
  then show ?thesis by (simp add: clusterOnTrack_def emptyCluster_def)
qed

lemma clusterOnTrack_fields:
  "associatedTrackList (clusterOnTrack hits) = [originTrack]"
  "caloHitList (clusterOnTrack hits) = hits"
  "isolatedCaloHitList (clusterOnTrack hits) = []"
proof -
  have "associatedTrackList (foldl Cluster_AddCaloHit c hits) = associatedTrackList c
        \<and> caloHitList (foldl Cluster_AddCaloHit c hits) = caloHitList c @ hits
        \<and> isolatedCaloHitList (foldl Cluster_AddCaloHit c hits) = isolatedCaloHitList c" for c
    by (induction hits arbitrary: c) (simp_all add: Cluster_AddCaloHit_def)
  then show "associatedTrackList (clusterOnTrack hits) = [originTrack]"
    "caloHitList (clusterOnTrack hits) = hits"
    "isolatedCaloHitList (clusterOnTrack hits) = []"
    by (simp_all add: clusterOnTrack_def emptyCluster_def)
qed

lemma distance_hitOnTrack:
  "GetDistanceToTrack defaultSettings c originTrack (hitOnTrack n l mip) d = (STATUS_CODE_SUCCESS, 0)"
  by (cases "initialDirection c")
     (simp add: GetDistanceToTrack_def defaultSettings_def originTrack_def hitOnTrack_def)

lemma distance_hitOffTrack:
  "initialDirection c = CartesianVector 0 0 1 \<Longrightarrow>
     GetDistanceToTrack defaultSettings c originTrack (hitOffTrack n l) d = (STATUS_CODE_SUCCESS, 200 / 51)"
  by (simp add: GetDistanceToTrack_def defaultSettings_def originTrack_def hitOffTrack_def)

lemma distance_degenerateHit:
  "GetDistanceToTrack defaultSettings c originTrack (degenerateHit n l) d = (STATUS_CODE_FAILURE, d)"
  by (cases "initialDirection c")
     (simp add: GetDistanceToTrack_def defaultSettings_def originTrack_def degenerateHit_def)

lemma distance_farHit:
  "GetDistanceToTrack defaultSettings c originTrack (farHit n l) d = (STATUS_CODE_UNCHANGED, d)"
  by (cases "initialDirection c")
     (simp add: GetDistanceToTrack_def defaultSettings_def originTrack_def farHit_def)

lemma example_hits_eq:
  "hitOnTrack n l mip = hitOnTrack n' l' mip' \<longleftrightarrow> n = n' \<and> l = l' \<and> mip = mip'"
  "hitOffTrack n l = hitOffTrack n' l' \<longleftrightarrow> n = n' \<and> l = l'"
  "hitOnTrack n l mip \<noteq> hitOffTrack n' l'"
  "hitOffTrack n' l' \<noteq> hitOnTrack n l mip"
  "degenerateHit n l \<noteq> hitOffTrack n' l'"
  "degenerateHit n l \<noteq> hitOnTrack n' l' mip"
  by (auto simp: hitOnTrack_def hitOffTrack_def degenerateHit_def)

lemma example_hits_layer:
  "pseudoLayer (hitOnTrack n l mip) = l"
  "pseudoLayer (hitOffTrack n l) = l"
  "pseudoLayer (degenerateHit n l) = l"
  "pseudoLayer (farHit n l) = l"
  by (simp_all add: hitOnTrack_def hitOffTrack_def degenerateHit_def farHit_def)

lemma caloHitList_AddCaloHit:
  "caloHitList (Cluster_AddCaloHit c h) = caloHitList c @ [h]"
  by (simp add: Cluster_AddCaloHit_def)

lemma genericDistanceCut_default: "m_genericDistanceCut defaultSettings = 1"
  by (simp add: defaultSettings_def)

lemma splitCluster_fields:
  "associatedTrackList splitCluster = [originTrack]"
  "initialDirection splitCluster = CartesianVector 0 0 1"
  "caloHitList splitCluster = [hitOnTrack 1 1 True, hitOffTrack 2 2]"
  "isolatedCaloHitList splitCluster = [hitOnTrack 3 7 True]"
  by (simp_all add: splitCluster_def clusterOnTrack_fields clusterOnTrack_direction)

lemma splitCluster_fragments:
  "MakeClusterFragments defaultSettings 1 5 splitCluster None None =
     Some (STATUS_CODE_SUCCESS,
       Some (Cluster_AddCaloHit
              (Cluster_AddCaloHit (emptyCluster\<lparr>associatedTrackList := [originTrack]\<rparr>)
                 (hitOnTrack 1 1 True))
              (hitOnTrack 3 7 True)),
       Some (Cluster_AddCaloHit emptyCluster (hitOffTrack 2 2)))"
  by (simp add: MakeClusterFragments_def splitCluster_fields GetOrderedCaloHitList_def
        GetCaloHitList_def example_hits_eq example_hits_layer fragmentHit_def
        distance_hitOnTrack distance_hitOffTrack genericDistanceCut_default
        Cluster_Create_fromTrack_def Cluster_Create_fromCaloHit_def Fragment_AddCaloHitToCluster_def
        caloHitList_AddCaloHit emptyCluster_def)

theorem fragmentation_round_trip_witness:
  "MakeClusterFragments defaultSettings 1 5 splitCluster None None =
     Some (STATUS_CODE_SUCCESS,
       Some (Cluster_AddCaloHit
              (Cluster_AddCaloHit (emptyCluster\<lparr>associatedTrackList := [originTrack]\<rparr>)
                 (hitOnTrack 1 1 True))
              (hitOnTrack 3 7 True)),
       Some (Cluster_AddCaloHit emptyCluster (hitOffTrack 2 2)))
   \<and> associatedTrackList splitCluster = originTrack # []
   \<and> mset [hitOnTrack 1 1 True, hitOnTrack 3 7 True] + mset [hitOffTrack 2 2]
       = mset (caloHitList splitCluster) + mset (isolatedCaloHitList splitCluster)
   \<and> hitOnTrack 3 7 True \<in> set (isolatedCaloHitList splitCluster)
   \<and> belongsToMipFragment defaultSettings 1 5 splitCluster originTrack (hitOnTrack 3 7 True)
   \<and> \<not> belongsToMipFragment defaultSettings 1 5 splitCluster originTrack (hitOffTrack 2 2)"
  using fragmentation_round_trip[OF splitCluster_fragments, of originTrack "[]"]
  by (simp add: splitCluster_fragments splitCluster_fields fragmentHitList_def
        caloHitList_AddCaloHit emptyCluster_def example_hits_eq)

lemma brokenCluster_fields:
  "associatedTrackList brokenCluster = [originTrack]"
  "initialDirection brokenCluster = CartesianVector 0 0 1"
  "caloHitList brokenCluster = [hitOnTrack 1 1 True, hitOffTrack 2 2, degenerateHit 3 3]"
  "isolatedCaloHitList brokenCluster = []"
  by (simp_all add: brokenCluster_def clusterOnTrack_fields clusterOnTrack_direction)

text \<open>
  On \<open>brokenCluster\<close> the distance of the third hit cannot be computed (its cut width is
  zero): the call returns \<open>STATUS_CODE_FAILURE\<close> and leaves both fragment pointers set,
  with the third hit of the original cluster in neither fragment.
\<close>

theorem fragmentation_round_trip_counterexample:
  "MakeClusterFragments defaultSettings 1 5 brokenCluster None None =
     Some (STATUS_CODE_FAILURE,
       Some (Cluster_AddCaloHit (emptyCluster\<lparr>associatedTrackList := [originTrack]\<rparr>)
               (hitOnTrack 1 1 True)),
       Some (Cluster_AddCaloHit emptyCluster (hitOffTrack 2 2)))
   \<and> degenerateHit 3 3 \<in> set (caloHitList brokenCluster)
   \<and> degenerateHit 3 3 \<notin>
       set (caloHitList (Cluster_AddCaloHit (emptyCluster\<lparr>associatedTrackList := [originTrack]\<rparr>)
               (hitOnTrack 1 1 True)))
       \<union> set (caloHitList (Cluster_AddCaloHit emptyCluster (hitOffTrack 2 2)))"
  by (simp add: MakeClusterFragments_def brokenCluster_fields GetOrderedCaloHitList_def
        GetCaloHitList_def example_hits_eq example_hits_layer fragmentHit_def
        distance_hitOnTrack distance_hitOffTrack distance_degenerateHit genericDistanceCut_default
        Cluster_Create_fromTrack_def Cluster_Create_fromCaloHit_def Fragment_AddCaloHitToCluster_def
        caloHitList_AddCaloHit emptyCluster_def)

section \<open>Properties of the fragment selection\<close>

lemma GetDistanceToTrack_result_contract_aux:
  "GetDistanceToTrack cfg pCluster pTrack pCaloHit distance =
     GetDistanceToTrack_contract cfg pCluster pTrack pCaloHit distance"
  by (cases "hitType pCaloHit")
     (auto simp: GetDistanceToTrack_def GetDistanceToTrack_contract_def rawSeparation_def
        perpendicularDistance_def cutWidth_def Let_def mult_ac)

text \<open>
  C7.  The fragment list is the one saved, and the original list the one deleted, if and
  only if both fragments are non-null, the photon fragment has at least
  \<open>m_minHitsInPhotonCluster\<close> hits, and the squared-chi delta is below
  \<open>m_nonPhotonDeltaChi2Cut\<close> or the photon fragment is a fast photon and the delta is
  below \<open>m_photonDeltaChi2Cut\<close>; in every other case, and so whenever a fragment is null,
  the original list is saved and the fragment list deleted.  Saving the original list
  leaves the cluster list as it was; saving the fragment list puts the two fragments
  in the place of the original cluster.
\<close>

theorem fragment_selection_policy:
  "clusterListsToSaveAndDelete api cfg pOriginalCluster pTrack pMipCluster pPhotonCluster =
     (if fragmentsReplaceOriginal api cfg pOriginalCluster pTrack pMipCluster pPhotonCluster
      then (fragmentClustersListName, originalClustersListName)
      else (originalClustersListName, fragmentClustersListName))
   \<and> clusterListsToSaveAndDelete api cfg pOriginalCluster pTrack None pPhotonCluster
       = (originalClustersListName, fragmentClustersListName)
   \<and> clusterListsToSaveAndDelete api cfg pOriginalCluster pTrack pMipCluster None
       = (originalClustersListName, fragmentClustersListName)
   \<and> commitFragmentation originalClustersListName pOriginalCluster pMipCluster pPhotonCluster clusters
       = clusters
   \<and> commitFragmentation fragmentClustersListName pOriginalCluster (Some mipCluster) (Some photonCluster)
         clusters
       = remove1 pOriginalCluster clusters @ [mipCluster, photonCluster]
   \<and> separateCluster api cfg TRACK_PROJECTION_LAYER clusters pOriginalCluster =
       (case associatedTrackList pOriginalCluster of
          [pTrack] \<Rightarrow>
            (case ShouldFragmentCluster cfg TRACK_PROJECTION_LAYER pOriginalCluster LAYER_MAX LAYER_MAX of
               None \<Rightarrow> None
             | Some (fragment, showerStart, showerEnd) \<Rightarrow>
                 if \<not> fragment then Some (STATUS_CODE_SUCCESS, clusters)
                 else if InitializeFragmentation api pOriginalCluster \<noteq> STATUS_CODE_SUCCESS
                 then Some (InitializeFragmentation api pOriginalCluster, clusters)
                 else
                   (case MakeClusterFragments cfg showerStart showerEnd pOriginalCluster None None of
                      None \<Rightarrow> None
                    | Some (status, pMip, pPhoton) \<Rightarrow>
                        if status \<noteq> STATUS_CODE_SUCCESS then Some (status, clusters)
                        else if EndFragmentation api pOriginalCluster \<noteq> STATUS_CODE_SUCCESS
                        then Some (EndFragmentation api pOriginalCluster, clusters)
                        else Some (STATUS_CODE_SUCCESS,
                               if fragmentsReplaceOriginal api cfg pOriginalCluster pTrack pMip pPhoton
                               then remove1 pOriginalCluster clusters @ List.map_filter id [pMip, pPhoton]
                               else clusters)))
        | _ \<Rightarrow> Some (STATUS_CODE_SUCCESS, clusters))"
proof -
  have select:
    "clusterListsToSaveAndDelete api cfg pOriginalCluster t m p =
       (if fragmentsReplaceOriginal api cfg pOriginalCluster t m p
        then (fragmentClustersListName, originalClustersListName)
        else (originalClustersListName, fragmentClustersListName))" for t m p
    by (cases m; cases p)
       (simp_all add: clusterListsToSaveAndDelete_def fragmentsReplaceOriginal_def deltaChi2_def
          Let_def power2_eq_square)
  have null: "\<not> fragmentsReplaceOriginal api cfg pOriginalCluster t None p"
    "\<not> fragmentsReplaceOriginal api cfg pOriginalCluster t m None" for t m p
    by (simp_all add: fragmentsReplaceOriginal_def)
  have commit:
    "commitFragmentation originalClustersListName pOriginalCluster m p clusters
       = clusters"
    "commitFragmentation fragmentClustersListName pOriginalCluster m p clusters
       = remove1 pOriginalCluster clusters @ List.map_filter id [m, p]" for m p
    by (simp_all add: commitFragmentation_def)
  have body: "separateCluster api cfg TRACK_PROJECTION_LAYER clusters pOriginalCluster =
       (case associatedTrackList pOriginalCluster of
          [pTrack] \<Rightarrow>
            (case ShouldFragmentCluster cfg TRACK_PROJECTION_LAYER pOriginalCluster LAYER_MAX LAYER_MAX of
               None \<Rightarrow> None
             | Some (fragment, showerStart, showerEnd) \<Rightarrow>
                 if \<not> fragment then Some (STATUS_CODE_SUCCESS, clusters)
                 else if InitializeFragmentation api pOriginalCluster \<noteq> STATUS_CODE_SUCCESS
                 then Some (InitializeFragmentation api pOriginalCluster, clusters)
                 else
                   (case MakeClusterFragments cfg showerStart showerEnd pOriginalCluster None None of
                      None \<Rightarrow> None
                    | Some (status, pMip, pPhoton) \<Rightarrow>
                        if status \<noteq> STATUS_CODE_SUCCESS then Some (status, clusters)
                        else if EndFragmentation api pOriginalCluster \<noteq> STATUS_CODE_SUCCESS
                        then Some (EndFragmentation api pOriginalCluster, clusters)
                        else Some (STATUS_CODE_SUCCESS,
                               if fragmentsReplaceOriginal api cfg pOriginalCluster pTrack pMip pPhoton
                               then remove1 pOriginalCluster clusters @ List.map_filter id [pMip, pPhoton]
                               else clusters)))
        | _ \<Rightarrow> Some (STATUS_CODE_SUCCESS, clusters))"
    unfolding separateCluster_def select
    by (simp add: commit split: list.splits option.splits prod.splits)
  show ?thesis
    unfolding select
    using null body by (simp add: commit List.map_filter_simps)
qed

section \<open>Hits beyond the maximum track separation\<close>

text \<open>
  C10.  When \<open>GetDistanceToTrack\<close> returns UNCHANGED for a hit in
  \<open>MakeClusterFragments\<close> (the maximum separation is not zero and the raw separation is
  at least the maximum), the distance keeps the value 0 it was initialised with and,
  with a positive generic distance cut, the hit is added to the mip fragment whatever
  its layer and the shower range; the scan of \<open>ShouldFragmentCluster\<close> passes over a hit
  whose distance is not computed with SUCCESS, this hit among them.
\<close>

theorem unchanged_hit_joins_mip_fragment:
  assumes unchanged: "fst (GetDistanceToTrack cfg pOriginalCluster pTrack pCaloHit 0) = STATUS_CODE_UNCHANGED"
    and cut: "0 < m_genericDistanceCut cfg"
  shows "m_maxTrackSeparation cfg \<noteq> 0 \<and> rawSeparation pTrack pCaloHit \<ge> m_maxTrackSeparation cfg
         \<and> snd (GetDistanceToTrack cfg pOriginalCluster pTrack pCaloHit 0) = 0
         \<and> fragmentHit cfg showerStart showerEnd pOriginalCluster pTrack iLayer (None, pPhotonCluster) pCaloHit
             = (STATUS_CODE_SUCCESS,
                Some (Cluster_AddCaloHit (emptyCluster\<lparr>associatedTrackList := [pTrack]\<rparr>) pCaloHit),
                pPhotonCluster)
         \<and> fragmentHit cfg showerStart showerEnd pOriginalCluster pTrack iLayer
               (Some mipCluster, pPhotonCluster) pCaloHit
             = (if pCaloHit \<in> set (caloHitList mipCluster)
                then (STATUS_CODE_ALREADY_PRESENT, Some mipCluster, pPhotonCluster)
                else (STATUS_CODE_SUCCESS, Some (Cluster_AddCaloHit mipCluster pCaloHit), pPhotonCluster))
         \<and> scanHit cfg pOriginalCluster pTrack fl pCaloHit = fl
         \<and> (\<forall>c t h. fst (GetDistanceToTrack cfg c t h FLOAT_MAX) \<noteq> STATUS_CODE_SUCCESS
               \<longrightarrow> scanHit cfg c t fl h = fl)"
proof -
  from unchanged have contract:
    "m_maxTrackSeparation cfg \<noteq> 0" "rawSeparation pTrack pCaloHit \<ge> m_maxTrackSeparation cfg"
    by (auto simp: GetDistanceToTrack_result_contract_aux GetDistanceToTrack_contract_def split: if_splits)
  then have result: "GetDistanceToTrack cfg pOriginalCluster pTrack pCaloHit d = (STATUS_CODE_UNCHANGED, d)" for d
    by (simp add: GetDistanceToTrack_result_contract_aux GetDistanceToTrack_contract_def)
  have skip: "scanHit cfg c t fl h = fl" if "fst (GetDistanceToTrack cfg c t h FLOAT_MAX) \<noteq> STATUS_CODE_SUCCESS"
    for c t h
    using that by (cases "GetDistanceToTrack cfg c t h FLOAT_MAX") (simp add: scanHit_def)
  have one: "fragmentHit cfg showerStart showerEnd pOriginalCluster pTrack iLayer (None, pPhotonCluster) pCaloHit
             = (STATUS_CODE_SUCCESS,
                Some (Cluster_AddCaloHit (emptyCluster\<lparr>associatedTrackList := [pTrack]\<rparr>) pCaloHit),
                pPhotonCluster)"
    using cut by (simp add: fragmentHit_def result Cluster_Create_fromTrack_def
          Fragment_AddCaloHitToCluster_def emptyCluster_def)
  have two: "fragmentHit cfg showerStart showerEnd pOriginalCluster pTrack iLayer
               (Some mipCluster, pPhotonCluster) pCaloHit
             = (if pCaloHit \<in> set (caloHitList mipCluster)
                then (STATUS_CODE_ALREADY_PRESENT, Some mipCluster, pPhotonCluster)
                else (STATUS_CODE_SUCCESS, Some (Cluster_AddCaloHit mipCluster pCaloHit), pPhotonCluster))"
    using cut by (simp add: fragmentHit_def result Fragment_AddCaloHitToCluster_def)
  from contract result[of 0] one two skip[of pOriginalCluster pTrack pCaloHit] result[of FLOAT_MAX] skip
  show ?thesis by simp
qed

theorem unchanged_hit_joins_mip_fragment_witness:
  "fst (GetDistanceToTrack defaultSettings splitCluster originTrack (farHit 9 3) 0) = STATUS_CODE_UNCHANGED
   \<and> 0 < m_genericDistanceCut defaultSettings
   \<and> 1 \<le> pseudoLayer (farHit 9 3) \<and> pseudoLayer (farHit 9 3) \<le> 5
   \<and> fragmentHit defaultSettings 1 5 splitCluster originTrack 3 (None, None) (farHit 9 3)
       = (STATUS_CODE_SUCCESS,
          Some (Cluster_AddCaloHit (emptyCluster\<lparr>associatedTrackList := [originTrack]\<rparr>) (farHit 9 3)),
          None)
   \<and> scanHit defaultSettings splitCluster originTrack noTrackHit (farHit 9 3) = noTrackHit"
proof -
  have unchanged: "fst (GetDistanceToTrack defaultSettings splitCluster originTrack (farHit 9 3) 0)
                     = STATUS_CODE_UNCHANGED"
    by (simp add: distance_farHit)
  have cut: "0 < m_genericDistanceCut defaultSettings"
    by (simp add: genericDistanceCut_default)
  from unchanged_hit_joins_mip_fragment[OF unchanged cut, of 1 5 3 None _ noTrackHit] unchanged cut
  show ?thesis by (simp add: example_hits_layer)
qed

section \<open>Properties of the forced clustering\<close>

text \<open>
  C9.  When the current track list is empty, or it is not and the current ordered hit
  list is empty, \<open>Run\<close> returns \<open>STATUS_CODE_INVALID_PARAMETER\<close> and leaves the event as it
  was: no cluster is created and no availability flag is changed.
\<close>

theorem empty_input_failure:
  assumes "currentTrackList ev = Some trackList"
    and "trackList = [] \<or> currentOrderedCaloHitList ev = Some []"
  shows "ForcedClusteringAlgorithm_Run api cfg ev = (STATUS_CODE_INVALID_PARAMETER, ev)"
  using assms
  by (auto simp: ForcedClusteringAlgorithm_Run_def GetCurrentTrackList_def
        GetCurrentOrderedCaloHitList_def)

lemma concat_map_update:
  assumes "i < length cl" and "f c = f (cl ! i) @ [h]"
  shows "\<exists>A B. concat (map f cl) = A @ f (cl ! i) @ B
             \<and> concat (map f (cl[i := c])) = A @ f (cl ! i) @ [h] @ B"
proof -
  from assms(1) have "cl = take i cl @ (cl ! i) # drop (Suc i) cl"
    by (simp add: id_take_nth_drop)
  then have one: "concat (map f cl)
      = concat (map f (take i cl)) @ f (cl ! i) @ concat (map f (drop (Suc i) cl))"
    by (metis concat.simps(2) concat_append list.simps(9) map_append)
  from assms(1) have "cl[i := c] = take i cl @ c # drop (Suc i) cl"
    by (simp add: upd_conv_take_nth_drop)
  then have "concat (map f (cl[i := c]))
      = concat (map f (take i cl)) @ f c @ concat (map f (drop (Suc i) cl))"
    by simp
  with one assms(2) show ?thesis by auto
qed

lemma AddCaloHitToCluster_exclusive:
  assumes "AddCaloHitToCluster ev pCluster pCaloHit = Inr ev'" and "hitsExclusive ev"
  shows "hitsExclusive ev'"
proof -
  let ?cl = "currentClusterList ev"
  from assms(1) have i: "pCluster < length ?cl" and av: "caloHitAvailable ev pCaloHit"
    and ev': "ev' = ev\<lparr>currentClusterList :=
                      ?cl[pCluster := Cluster_AddCaloHit (?cl ! pCluster) pCaloHit],
                   caloHitAvailable := (caloHitAvailable ev)(pCaloHit := False)\<rparr>"
    by (auto simp: AddCaloHitToCluster_def split: if_splits)
  have "caloHitList (Cluster_AddCaloHit (?cl ! pCluster) pCaloHit)
          = caloHitList (?cl ! pCluster) @ [pCaloHit]"
    by (simp add: Cluster_AddCaloHit_def)
  from concat_map_update[OF i this] obtain A B where
    AB: "concat (map caloHitList ?cl) = A @ caloHitList (?cl ! pCluster) @ B"
      "concat (map caloHitList (?cl[pCluster := Cluster_AddCaloHit (?cl ! pCluster) pCaloHit]))
         = A @ caloHitList (?cl ! pCluster) @ [pCaloHit] @ B"
    by blast
  from assms(2) av have "pCaloHit \<notin> set (concat (map caloHitList ?cl))"
    by (auto simp: hitsExclusive_def)
  with assms(2) AB show ?thesis
    unfolding hitsExclusive_def ev' by auto
qed

lemma Cluster_Create_forTrack_exclusive:
  assumes "Cluster_Create_forTrack ev pTrack = Inr (ev', pCluster)" and "hitsExclusive ev"
  shows "hitsExclusive ev'"
  using assms
  by (auto simp: Cluster_Create_forTrack_def Cluster_Create_fromTrack_def hitsExclusive_def
        emptyCluster_def)

lemma seedClusters_exclusive:
  assumes "seedClusters api cfg input tracks ev v = (status, ev', v')" and "hitsExclusive ev"
  shows "hitsExclusive ev'"
  using assms
proof (induction tracks arbitrary: ev v)
  case Nil
  then show ?case by simp
next
  case (Cons t tracks)
  show ?case
  proof (cases "Cluster_Create_forTrack ev t")
    case (Inl e)
    with Cons.prems show ?thesis by simp
  next
    case (Inr r)
    obtain ev1 c where r: "r = (ev1, c)" by (cases r)
    from Cluster_Create_forTrack_exclusive[OF Inr[unfolded r] Cons.prems(2)]
    have ex1: "hitsExclusive ev1" .
    obtain st v1 where cd: "collectDistances api cfg ev1 t c input v = (st, v1)"
      by (cases "collectDistances api cfg ev1 t c input v")
    show ?thesis
    proof (cases "st = STATUS_CODE_SUCCESS")
      case True
      with Cons.prems(1) Inr r cd
      have "seedClusters api cfg input tracks ev1 v1 = (status, ev', v')" by simp
      from Cons.IH[OF this ex1] show ?thesis .
    next
      case False
      with Cons.prems(1) Inr r cd ex1 show ?thesis by simp
    qed
  qed
qed

lemma assignHits_exclusive:
  assumes "assignHits v ev = (status, ev')" and "hitsExclusive ev"
  shows "hitsExclusive ev'"
  using assms
proof (induction v arbitrary: ev)
  case Nil
  then show ?case by simp
next
  case (Cons info rest)
  show ?case
  proof (cases "m_pCluster info < length (currentClusterList ev)
                \<and> hadronicEnergy (currentClusterList ev ! m_pCluster info) < m_trackEnergy info
                \<and> IsCaloHitAvailable ev (m_pCaloHit info)")
    case False
    with Cons show ?thesis by (auto split: if_splits)
  next
    case True
    show ?thesis
    proof (cases "AddCaloHitToCluster ev (m_pCluster info) (m_pCaloHit info)")
      case (Inl e)
      with True Cons.prems show ?thesis by simp
    next
      case (Inr ev1)
      from AddCaloHitToCluster_exclusive[OF Inr Cons.prems(2)] have "hitsExclusive ev1" .
      moreover from True Inr Cons.prems(1) have "assignHits rest ev1 = (status, ev')" by simp
      ultimately show ?thesis by (rule Cons.IH[rotated])
    qed
  qed
qed

lemma caloHitList_foldl_AddCaloHit:
  "caloHitList (foldl Cluster_AddCaloHit c hits) = caloHitList c @ hits"
  by (induction hits arbitrary: c) (simp_all add: Cluster_AddCaloHit_def)

lemma Cluster_Create_fromCaloHitList_exclusive:
  assumes "Cluster_Create_fromCaloHitList ev hits = Inr (ev', pCluster)"
    and "hitsExclusive ev" and "distinct hits"
  shows "hitsExclusive ev'"
proof -
  from assms(1) have av: "\<forall>h \<in> set hits. caloHitAvailable ev h"
    and ev': "ev' = ev\<lparr>currentClusterList :=
                      currentClusterList ev @ [foldl Cluster_AddCaloHit emptyCluster hits],
                   caloHitAvailable := (\<lambda>h. caloHitAvailable ev h \<and> h \<notin> set hits)\<rparr>"
    by (auto simp: Cluster_Create_fromCaloHitList_def split: if_splits)
  have new: "caloHitList (foldl Cluster_AddCaloHit emptyCluster hits) = hits"
    by (simp add: caloHitList_foldl_AddCaloHit emptyCluster_def)
  from assms(2) av have "set (concat (map caloHitList (currentClusterList ev))) \<inter> set hits = {}"
    by (auto simp: hitsExclusive_def)
  with assms(2,3) new show ?thesis
    unfolding hitsExclusive_def ev' by auto
qed

lemma distinct_concat_filter:
  "distinct (concat (map f xs)) \<Longrightarrow> distinct (concat (map f (filter P xs)))"
  by (induction xs) auto

lemma RemoveEmptyClusters_exclusive:
  assumes "hitsExclusive ev"
  shows "hitsExclusive (snd (RemoveEmptyClusters ev))"
  using assms distinct_concat_filter[of caloHitList "currentClusterList ev"]
  by (auto simp: RemoveEmptyClusters_def DeleteClusters_def hitsExclusive_def)

lemma collectDistances_records:
  assumes "collectDistances api cfg ev t c hits v = (status, v')"
  shows "\<forall>r \<in> set v'. r \<in> set v
           \<or> (m_pCluster r = c \<and> m_trackEnergy r = energyAtDca t \<and> IsCaloHitAvailable ev (m_pCaloHit r))"
  using assms
proof (induction hits arbitrary: v)
  case Nil
  then show ?case by simp
next
  case (Cons h hits)
  show ?case
  proof (cases "IsCaloHitAvailable ev h \<and> (m_shouldClusterIsolatedHits cfg \<or> \<not> isIsolated h)")
    case False
    with Cons.prems have "collectDistances api cfg ev t c hits v = (status, v')" by auto
    from Cons.IH[OF this] show ?thesis .
  next
    case True
    obtain st sep where d: "GetDistanceToPoint api t (positionVector h) = (st, sep)"
      by (cases "GetDistanceToPoint api t (positionVector h)")
    show ?thesis
    proof (cases "st = STATUS_CODE_SUCCESS")
      case False
      with True d Cons.prems show ?thesis by auto
    next
      case ok: True
      with True d Cons.prems have
        "collectDistances api cfg ev t c hits
           (v @ [\<lparr>m_pCaloHit = h, m_pCluster = c, m_trackEnergy = energyAtDca t,
                  m_trackDistance = GetMagnitude sep\<rparr>]) = (status, v')"
        by simp
      from Cons.IH[OF this] True show ?thesis by auto
    qed
  qed
qed

lemma seedClusters_seeded:
  assumes "seedClusters api cfg input tracks ev v = (status, ev', v')"
    and "seededFrom n ev" and "recordsFrom n ev v"
  shows "seededFrom n ev' \<and> recordsFrom n ev' v'"
  using assms
proof (induction tracks arbitrary: ev v)
  case Nil
  then show ?case by simp
next
  case (Cons t tracks)
  let ?cl = "currentClusterList ev"
  let ?ev1 = "ev\<lparr>currentClusterList := ?cl @ [emptyCluster\<lparr>associatedTrackList := [t]\<rparr>]\<rparr>"
  have create: "Cluster_Create_forTrack ev t = Inr (?ev1, length ?cl)"
    by (simp add: Cluster_Create_forTrack_def Cluster_Create_fromTrack_def)
  have new: "energyCapped (emptyCluster\<lparr>associatedTrackList := [t]\<rparr>)"
    by (simp add: energyCapped_def emptyCluster_def)
  from Cons.prems(2) new have s1: "seededFrom n ?ev1"
    by (auto simp: seededFrom_def nth_append)
  from Cons.prems(2,3) have r1: "recordsFrom n ?ev1 v"
    by (auto simp: recordsFrom_def seededFrom_def nth_append)
  obtain st v1 where cd: "collectDistances api cfg ?ev1 t (length ?cl) input v = (st, v1)"
    by (cases "collectDistances api cfg ?ev1 t (length ?cl) input v")
  have r2: "recordsFrom n ?ev1 v1"
    unfolding recordsFrom_def
  proof
    fix r assume "r \<in> set v1"
    with collectDistances_records[OF cd] consider "r \<in> set v"
      | "m_pCluster r = length ?cl" "m_trackEnergy r = energyAtDca t"
      by blast
    then show "n \<le> m_pCluster r \<and> m_pCluster r < length (currentClusterList ?ev1)
        \<and> (\<exists>t. associatedTrackList (currentClusterList ?ev1 ! m_pCluster r) = [t]
                \<and> m_trackEnergy r = energyAtDca t)"
    proof cases
      case 1
      with r1 show ?thesis unfolding recordsFrom_def by blast
    next
      case 2
      with Cons.prems(2) show ?thesis by (simp add: seededFrom_def)
    qed
  qed
  show ?case
  proof (cases "st = STATUS_CODE_SUCCESS")
    case True
    with Cons.prems(1) create cd
    have "seedClusters api cfg input tracks ?ev1 v1 = (status, ev', v')" by simp
    from Cons.IH[OF this s1 r2] show ?thesis .
  next
    case False
    with Cons.prems(1) create cd s1 r2 show ?thesis by auto
  qed
qed

lemma AddCaloHitToCluster_seeded:
  assumes add: "AddCaloHitToCluster ev c h = Inr ev'"
    and below: "hadronicEnergy (currentClusterList ev ! c) < e"
    and track: "associatedTrackList (currentClusterList ev ! c) = [t]" "e = energyAtDca t"
    and inv: "seededFrom n ev" "recordsFrom n ev v"
  shows "seededFrom n ev' \<and> recordsFrom n ev' v"
proof -
  let ?cl = "currentClusterList ev"
  let ?c' = "Cluster_AddCaloHit (?cl ! c) h"
  from add have i: "c < length ?cl"
    and cl': "currentClusterList ev' = ?cl[c := ?c']"
    by (auto simp: AddCaloHitToCluster_def split: if_splits)
  from below track have capped: "energyCapped ?c'"
    by (simp add: energyCapped_def Cluster_AddCaloHit_def)
  have tracks: "associatedTrackList (?cl[c := ?c'] ! j) = associatedTrackList (?cl ! j)"
    if "j < length ?cl" for j
    using that by (cases "j = c") (simp_all add: Cluster_AddCaloHit_def)
  from inv(1) capped i have "seededFrom n ev'"
    unfolding seededFrom_def cl' by (auto simp: nth_list_update)
  moreover from inv(2) tracks have "recordsFrom n ev' v"
    unfolding recordsFrom_def cl' by auto
  ultimately show ?thesis by simp
qed

lemma assignHits_seeded:
  assumes "assignHits v ev = (status, ev')" and "seededFrom n ev" and "recordsFrom n ev v"
  shows "seededFrom n ev'"
  using assms
proof (induction v arbitrary: ev)
  case Nil
  then show ?case by simp
next
  case (Cons info rest)
  from Cons.prems(3) have rest: "recordsFrom n ev rest" and i: "m_pCluster info < length (currentClusterList ev)"
    and track: "\<exists>t. associatedTrackList (currentClusterList ev ! m_pCluster info) = [t]
                  \<and> m_trackEnergy info = energyAtDca t"
    by (auto simp: recordsFrom_def)
  show ?case
  proof (cases "hadronicEnergy (currentClusterList ev ! m_pCluster info) < m_trackEnergy info
                \<and> IsCaloHitAvailable ev (m_pCaloHit info)")
    case False
    with i Cons.prems(1) have "assignHits rest ev = (status, ev')" by auto
    from Cons.IH[OF this Cons.prems(2) rest] show ?thesis .
  next
    case True
    show ?thesis
    proof (cases "AddCaloHitToCluster ev (m_pCluster info) (m_pCaloHit info)")
      case (Inl e)
      with True i Cons.prems show ?thesis by simp
    next
      case (Inr ev1)
      from track obtain t where t: "associatedTrackList (currentClusterList ev ! m_pCluster info) = [t]"
        "m_trackEnergy info = energyAtDca t" by blast
      from True have below: "hadronicEnergy (currentClusterList ev ! m_pCluster info) < m_trackEnergy info"
        by simp
      from AddCaloHitToCluster_seeded[OF Inr below t Cons.prems(2) rest]
      have inv1: "seededFrom n ev1" "recordsFrom n ev1 rest" by simp_all
      from True i Inr Cons.prems(1) have "assignHits rest ev1 = (status, ev')" by simp
      from Cons.IH[OF this inv1] show ?thesis .
    qed
  qed
qed

text \<open>
  C1.  In the walk a record whose cluster has reached the energy of its track adds no
  hit: the walk goes on with the event as it is.  After the pass (for any status it
  ends with), every cluster the pass has created is a track-seeded cluster that
  either has no hit and no energy, or whose hadronic energy without its last-added
  hit is strictly below the energy of its track at the point of closest approach: it
  exceeds that energy by less than the energy of the last-added hit.
\<close>

theorem energy_cap_stopping_rule:
  assumes sort: "std_sort_contract (std_sort api)"
    and pass: "assignmentPass api cfg inputCaloHitList trackList ev = (status, ev')"
  shows "(\<forall>i. length (currentClusterList ev) \<le> i \<and> i < length (currentClusterList ev')
            \<longrightarrow> energyCapped (currentClusterList ev' ! i))
         \<and> (\<forall>e info rest. m_pCluster info < length (currentClusterList e)
               \<and> \<not> hadronicEnergy (currentClusterList e ! m_pCluster info) < m_trackEnergy info
            \<longrightarrow> assignHits (info # rest) e = assignHits rest e)"
proof -
  let ?n = "length (currentClusterList ev)"
  obtain st ev1 v where seed: "seedClusters api cfg inputCaloHitList trackList ev [] = (st, ev1, v)"
    by (cases "seedClusters api cfg inputCaloHitList trackList ev []")
  have "seededFrom ?n ev" "recordsFrom ?n ev []"
    by (auto simp: seededFrom_def recordsFrom_def)
  from seedClusters_seeded[OF seed this] have inv1: "seededFrom ?n ev1" "recordsFrom ?n ev1 v"
    by simp_all
  from sort have "set (std_sort api v) = set v"
    unfolding std_sort_contract_def by (metis set_mset_mset)
  with inv1(2) have recs: "recordsFrom ?n ev1 (std_sort api v)"
    by (simp add: recordsFrom_def)
  have "seededFrom ?n ev'"
  proof (cases "st = STATUS_CODE_SUCCESS")
    case True
    with pass seed have "assignHits (std_sort api v) ev1 = (status, ev')"
      by (simp add: assignmentPass_def)
    from assignHits_seeded[OF this inv1(1) recs] show ?thesis .
  next
    case False
    with pass seed inv1(1) show ?thesis by (simp add: assignmentPass_def)
  qed
  then show ?thesis by (simp add: seededFrom_def)
qed

lemma assignmentPass_exclusive:
  assumes "hitsExclusive ev"
  shows "hitsExclusive (snd (assignmentPass api cfg input tracks ev))"
proof -
  obtain st ev1 v where seed: "seedClusters api cfg input tracks ev [] = (st, ev1, v)"
    by (cases "seedClusters api cfg input tracks ev []")
  from seedClusters_exclusive[OF seed assms] have ex1: "hitsExclusive ev1" .
  obtain st2 ev2 where walk: "assignHits (std_sort api v) ev1 = (st2, ev2)"
    by (cases "assignHits (std_sort api v) ev1")
  from assignHits_exclusive[OF walk ex1] have "hitsExclusive ev2" .
  with seed walk ex1 show ?thesis by (simp add: assignmentPass_def)
qed

lemma collectRemnants_exclusive:
  assumes "hitsExclusive ev" and "distinct input"
    and "m_shouldRunStandardClusteringAlgorithm cfg \<longrightarrow>
           (\<forall>e. hitsExclusive e \<longrightarrow> hitsExclusive (snd (RunStandardClustering api e)))"
  shows "hitsExclusive (snd (collectRemnants api cfg input ev))"
proof (cases "m_shouldRunStandardClusteringAlgorithm cfg")
  case True
  with assms(1,3) show ?thesis by (simp add: collectRemnants_def)
next
  case False
  let ?remnant = "filter (\<lambda>h. IsCaloHitAvailable ev h \<and> (m_shouldClusterIsolatedHits cfg \<or> \<not> isIsolated h)) input"
  from assms(2) have d: "distinct ?remnant" by simp
  show ?thesis
  proof (cases "Cluster_Create_fromCaloHitList ev ?remnant")
    case (Inl e)
    with False assms(1) show ?thesis by (simp add: collectRemnants_def Let_def)
  next
    case (Inr r)
    obtain ev1 c where r: "r = (ev1, c)" by (cases r)
    from Cluster_Create_fromCaloHitList_exclusive[OF Inr[unfolded r] assms(1) d]
    have "hitsExclusive ev1" .
    with False Inr r assms(1) show ?thesis by (simp add: collectRemnants_def Let_def)
  qed
qed

lemma Run_exclusive:
  assumes start: "hitsExclusive ev"
    and standard: "m_shouldRunStandardClusteringAlgorithm cfg \<longrightarrow>
           (\<forall>e. hitsExclusive e \<longrightarrow> hitsExclusive (snd (RunStandardClustering api e)))"
    and isolated: "m_shouldAssociateIsolatedHits cfg \<longrightarrow>
           (\<forall>e. hitsExclusive e \<longrightarrow> hitsExclusive (snd (RunIsolatedHitAssociation api e)))"
  shows "hitsExclusive (snd (ForcedClusteringAlgorithm_Run api cfg ev))"
proof -
  have main: "hitsExclusive (snd
      (case assignmentPass api cfg input tl ev of
         (status1, ev1) \<Rightarrow>
           if status1 \<noteq> STATUS_CODE_SUCCESS then (status1, ev1)
           else
             (case collectRemnants api cfg input ev1 of
                (status2, ev2) \<Rightarrow>
                  if status2 \<noteq> STATUS_CODE_SUCCESS then (status2, ev2)
                  else
                    (case (if m_shouldAssociateIsolatedHits cfg
                           then RunIsolatedHitAssociation api ev2
                           else (STATUS_CODE_SUCCESS, ev2)) of
                       (status3, ev3) \<Rightarrow>
                         if status3 \<noteq> STATUS_CODE_SUCCESS then (status3, ev3)
                         else RemoveEmptyClusters ev3))))"
    if "distinct input" for input tl
  proof -
    obtain st1 ev1 where p1: "assignmentPass api cfg input tl ev = (st1, ev1)"
      by (cases "assignmentPass api cfg input tl ev")
    from assignmentPass_exclusive[OF start, of api cfg input tl] p1 have ex1: "hitsExclusive ev1"
      by simp
    obtain st2 ev2 where p2: "collectRemnants api cfg input ev1 = (st2, ev2)"
      by (cases "collectRemnants api cfg input ev1")
    from collectRemnants_exclusive[OF ex1 that standard] p2 have ex2: "hitsExclusive ev2"
      by simp
    obtain st3 ev3 where p3: "(if m_shouldAssociateIsolatedHits cfg
                           then RunIsolatedHitAssociation api ev2
                           else (STATUS_CODE_SUCCESS, ev2)) = (st3, ev3)"
      by (cases "(if m_shouldAssociateIsolatedHits cfg
                           then RunIsolatedHitAssociation api ev2
                           else (STATUS_CODE_SUCCESS, ev2))")
    from isolated ex2 p3 have ex3: "hitsExclusive ev3"
      by (cases "m_shouldAssociateIsolatedHits cfg") (auto dest: spec[of _ ev2])
    from RemoveEmptyClusters_exclusive[OF ex3] have ex4: "hitsExclusive (snd (RemoveEmptyClusters ev3))" .
    show ?thesis
      unfolding p1 prod.case p2 p3 using ex1 ex2 ex3 ex4 by simp
  qed
  show ?thesis
    unfolding ForcedClusteringAlgorithm_Run_def Let_def
    using start main[OF distinct_remdups]
    by (simp split: sum.splits)
qed

lemma collectDistances_available:
  "\<forall>r \<in> set (snd (collectDistances api cfg e t c hits [])). IsCaloHitAvailable e (m_pCaloHit r)"
proof -
  obtain st v where cd: "collectDistances api cfg e t c hits [] = (st, v)"
    by (cases "collectDistances api cfg e t c hits []")
  from collectDistances_records[OF cd] show ?thesis by (simp add: cd)
qed

text \<open>
  C2.  If no hit is in two clusters (or twice in one) and no hit of a cluster is
  available when \<open>Run\<close> is called, the same holds of the event \<open>Run\<close> leaves, whatever
  its status: every hit is in at most one cluster, track-seeded or remnant.  (The
  daughter algorithms, when they are switched on, are taken to keep this too.)  Only
  hits that are available are recorded as candidates; the walk passes over a record
  whose hit is no longer available; adding a hit needs it available and clears its
  availability.
\<close>

theorem hit_exclusivity:
  assumes start: "hitsExclusive ev"
    and standard: "m_shouldRunStandardClusteringAlgorithm cfg \<longrightarrow>
           (\<forall>e. hitsExclusive e \<longrightarrow> hitsExclusive (snd (RunStandardClustering api e)))"
    and isolated: "m_shouldAssociateIsolatedHits cfg \<longrightarrow>
           (\<forall>e. hitsExclusive e \<longrightarrow> hitsExclusive (snd (RunIsolatedHitAssociation api e)))"
  shows "hitsExclusive (snd (ForcedClusteringAlgorithm_Run api cfg ev))
         \<and> (\<forall>e t c hits. \<forall>r \<in> set (snd (collectDistances api cfg e t c hits [])).
              IsCaloHitAvailable e (m_pCaloHit r))
         \<and> (\<forall>e info rest. \<not> IsCaloHitAvailable e (m_pCaloHit info)
                \<and> m_pCluster info < length (currentClusterList e)
              \<longrightarrow> assignHits (info # rest) e = assignHits rest e)
         \<and> (\<forall>e c h e'. AddCaloHitToCluster e c h = Inr e'
              \<longrightarrow> caloHitAvailable e h \<and> \<not> caloHitAvailable e' h)"
proof -
  have add: "caloHitAvailable e h \<and> \<not> caloHitAvailable e' h"
    if "AddCaloHitToCluster e c h = Inr e'" for e c h e'
    using that by (auto simp: AddCaloHitToCluster_def split: if_splits)
  from Run_exclusive[OF assms] collectDistances_available add show ?thesis
    by auto
qed

section \<open>The sort of the distance records\<close>










lemma sort_key_contract:
  "mset (sort_key m_trackDistance v) = mset v
   \<and> sorted_wrt (\<lambda>a b. \<not> SortByDistanceToTrack b a) (sort_key m_trackDistance v)"
proof -
  have "sorted (map m_trackDistance (sort_key m_trackDistance v))" by simp
  then have "sorted_wrt (\<lambda>a b. m_trackDistance a \<le> m_trackDistance b) (sort_key m_trackDistance v)"
    unfolding sorted_map .
  then show ?thesis by (simp add: SortByDistanceToTrack_def not_less)
qed

lemma example_sorts_contract:
  "std_sort_contract encounterOrderSort" "std_sort_contract reverseTieSort"
  unfolding std_sort_contract_def encounterOrderSort_def reverseTieSort_def
  using sort_key_contract[of "rev v" for v] sort_key_contract
  by simp_all

lemma hit_positions:
  "positionVector (hitOnTrack n l mip) = CartesianVector 0 0 0"
  "isIsolated (hitOnTrack n l mip) = False"
  "hitHadronicEnergy (hitOnTrack n l mip) = 1"
  "pseudoLayer (hitOnTrack n l mip) = l"
  by (simp_all add: hitOnTrack_def)





theorem empty_input_failure_witness:
  "currentTrackList (eventOf [] [hitOnTrack 5 1 True]) = Some []
   \<and> ForcedClusteringAlgorithm_Run (pointTrackApi encounterOrderSort) defaultForcedSettings
        (eventOf [] [hitOnTrack 5 1 True])
       = (STATUS_CODE_INVALID_PARAMETER, eventOf [] [hitOnTrack 5 1 True])
   \<and> currentTrackList (eventOf [trackAt 7 1 10] []) = Some [trackAt 7 1 10]
   \<and> currentOrderedCaloHitList (eventOf [trackAt 7 1 10] []) = Some []
   \<and> ForcedClusteringAlgorithm_Run (pointTrackApi encounterOrderSort) defaultForcedSettings
        (eventOf [trackAt 7 1 10] [])
       = (STATUS_CODE_INVALID_PARAMETER, eventOf [trackAt 7 1 10] [])"
proof -
  have a: "currentTrackList (eventOf [] [hitOnTrack 5 1 True]) = Some []"
    and b: "currentTrackList (eventOf [trackAt 7 1 10] []) = Some [trackAt 7 1 10]"
    and c: "currentOrderedCaloHitList (eventOf [trackAt 7 1 10] []) = Some []"
    by (simp_all add: eventOf_def)
  from empty_input_failure[OF a, of "pointTrackApi encounterOrderSort" defaultForcedSettings]
    empty_input_failure[OF b, of "pointTrackApi encounterOrderSort" defaultForcedSettings]
    a b c
  show ?thesis by simp
qed

lemma forced_hits_fields:
  "positionVector (hitOffTrack n l) = CartesianVector 10 0 0"
  "isIsolated (hitOffTrack n l) = False"
  "hitHadronicEnergy (hitOffTrack n l) = 1"
  "pseudoLayer (hitOffTrack n l) = l"
  "positionVector (farHit n l) = CartesianVector 2000 0 0"
  "isIsolated (farHit n l) = False"
  "hitHadronicEnergy (farHit n l) = 1"
  "pseudoLayer (farHit n l) = l"
  by (simp_all add: hitOffTrack_def farHit_def)

lemma forced_hits_distinct:
  "hitOnTrack n l mip \<noteq> hitOffTrack n' l'" "hitOffTrack n' l' \<noteq> hitOnTrack n l mip"
  "hitOnTrack n l mip \<noteq> farHit n' l'" "farHit n' l' \<noteq> hitOnTrack n l mip"
  "hitOffTrack n l \<noteq> farHit n' l'" "farHit n' l' \<noteq> hitOffTrack n l"
  by (simp_all add: hitOnTrack_def hitOffTrack_def farHit_def)

lemma capEvent_fields:
  "currentTrackList capEvent = Some [trackAt 7 1 (3 / 2)]"
  "currentOrderedCaloHitList capEvent
     = Some [(1, [hitOnTrack 5 1 True]), (2, [hitOffTrack 6 2]), (3, [farHit 9 3])]"
  "currentClusterList capEvent = []"
  "caloHitAvailable capEvent = (\<lambda>h. True)"
  by (simp_all add: capEvent_def eventOf_def hit_positions forced_hits_fields)

lemma capEvent_input:
  "remdups (GetCaloHitList [(1, [hitOnTrack 5 1 True]), (2, [hitOffTrack 6 2]), (3, [farHit 9 3])])
     = [hitOnTrack 5 1 True, hitOffTrack 6 2, farHit 9 3]"
  by (simp add: GetCaloHitList_def forced_hits_distinct)

lemma capEvent_records:
  "seedClusters (pointTrackApi f) defaultForcedSettings
     [hitOnTrack 5 1 True, hitOffTrack 6 2, farHit 9 3] [trackAt 7 1 (3 / 2)] capEvent [] =
   (STATUS_CODE_SUCCESS,
    capEvent\<lparr>currentClusterList := [emptyCluster\<lparr>associatedTrackList := [trackAt 7 1 (3 / 2)]\<rparr>]\<rparr>,
    [\<lparr>m_pCaloHit = hitOnTrack 5 1 True, m_pCluster = 0, m_trackEnergy = 3 / 2, m_trackDistance = 1\<rparr>,
     \<lparr>m_pCaloHit = hitOffTrack 6 2, m_pCluster = 0, m_trackEnergy = 3 / 2, m_trackDistance = 9\<rparr>,
     \<lparr>m_pCaloHit = farHit 9 3, m_pCluster = 0, m_trackEnergy = 3 / 2, m_trackDistance = 1999\<rparr>])"
  by (simp add: Cluster_Create_forTrack_def Cluster_Create_fromTrack_def IsCaloHitAvailable_def
        capEvent_fields pointTrackApi_def defaultForcedSettings_def hit_positions forced_hits_fields
        trackAt_def GetMagnitude_x_axis del: GetMagnitude.simps)

lemma forced_example_settings:
  "std_sort (pointTrackApi f) = f"
  "m_shouldAssociateIsolatedHits defaultForcedSettings = False"
  "m_shouldRunStandardClusteringAlgorithm defaultForcedSettings = False"
  "m_shouldClusterIsolatedHits defaultForcedSettings = False"
  by (simp_all add: pointTrackApi_def defaultForcedSettings_def)

lemma capEvent_pass:
  "assignmentPass (pointTrackApi encounterOrderSort) defaultForcedSettings
      [hitOnTrack 5 1 True, hitOffTrack 6 2, farHit 9 3] [trackAt 7 1 (3 / 2)] capEvent
   = (STATUS_CODE_SUCCESS,
      capEvent\<lparr>currentClusterList :=
          [Cluster_AddCaloHit
             (Cluster_AddCaloHit (emptyCluster\<lparr>associatedTrackList := [trackAt 7 1 (3 / 2)]\<rparr>)
                (hitOnTrack 5 1 True))
             (hitOffTrack 6 2)],
        caloHitAvailable := (\<lambda>h. True)(hitOnTrack 5 1 True := False, hitOffTrack 6 2 := False)\<rparr>)"
  unfolding assignmentPass_def capEvent_records
  by (simp add: forced_example_settings encounterOrderSort_def IsCaloHitAvailable_def
        AddCaloHitToCluster_def capEvent_fields Cluster_AddCaloHit_def emptyCluster_def
        hit_positions forced_hits_fields forced_hits_distinct)

theorem energy_cap_stopping_rule_witness:
  "std_sort_contract (std_sort (pointTrackApi encounterOrderSort))
   \<and> assignmentPass (pointTrackApi encounterOrderSort) defaultForcedSettings
        [hitOnTrack 5 1 True, hitOffTrack 6 2, farHit 9 3] [trackAt 7 1 (3 / 2)] capEvent
      = (STATUS_CODE_SUCCESS,
         capEvent\<lparr>currentClusterList :=
            [Cluster_AddCaloHit
               (Cluster_AddCaloHit (emptyCluster\<lparr>associatedTrackList := [trackAt 7 1 (3 / 2)]\<rparr>)
                  (hitOnTrack 5 1 True))
               (hitOffTrack 6 2)],
           caloHitAvailable := (\<lambda>h. True)(hitOnTrack 5 1 True := False, hitOffTrack 6 2 := False)\<rparr>)
   \<and> energyCapped
        (Cluster_AddCaloHit
           (Cluster_AddCaloHit (emptyCluster\<lparr>associatedTrackList := [trackAt 7 1 (3 / 2)]\<rparr>)
              (hitOnTrack 5 1 True))
           (hitOffTrack 6 2))
   \<and> hadronicEnergy
        (Cluster_AddCaloHit
           (Cluster_AddCaloHit (emptyCluster\<lparr>associatedTrackList := [trackAt 7 1 (3 / 2)]\<rparr>)
              (hitOnTrack 5 1 True))
           (hitOffTrack 6 2)) = 2
   \<and> assignHits
        [\<lparr>m_pCaloHit = farHit 9 3, m_pCluster = 0, m_trackEnergy = 3 / 2, m_trackDistance = 1999\<rparr>]
        (capEvent\<lparr>currentClusterList :=
            [Cluster_AddCaloHit
               (Cluster_AddCaloHit (emptyCluster\<lparr>associatedTrackList := [trackAt 7 1 (3 / 2)]\<rparr>)
                  (hitOnTrack 5 1 True))
               (hitOffTrack 6 2)],
           caloHitAvailable := (\<lambda>h. True)(hitOnTrack 5 1 True := False, hitOffTrack 6 2 := False)\<rparr>)
      = (STATUS_CODE_SUCCESS,
         capEvent\<lparr>currentClusterList :=
            [Cluster_AddCaloHit
               (Cluster_AddCaloHit (emptyCluster\<lparr>associatedTrackList := [trackAt 7 1 (3 / 2)]\<rparr>)
                  (hitOnTrack 5 1 True))
               (hitOffTrack 6 2)],
           caloHitAvailable := (\<lambda>h. True)(hitOnTrack 5 1 True := False, hitOffTrack 6 2 := False)\<rparr>)"
proof -
  let ?c = "Cluster_AddCaloHit
               (Cluster_AddCaloHit (emptyCluster\<lparr>associatedTrackList := [trackAt 7 1 (3 / 2)]\<rparr>)
                  (hitOnTrack 5 1 True))
               (hitOffTrack 6 2)"
  let ?ev = "capEvent\<lparr>currentClusterList := [?c],
           caloHitAvailable := (\<lambda>h. True)(hitOnTrack 5 1 True := False, hitOffTrack 6 2 := False)\<rparr>"
  let ?r = "\<lparr>m_pCaloHit = farHit 9 3, m_pCluster = 0, m_trackEnergy = 3 / 2, m_trackDistance = 1999\<rparr>"
  have sort: "std_sort_contract (std_sort (pointTrackApi encounterOrderSort))"
    by (simp add: forced_example_settings example_sorts_contract)
  have energy: "hadronicEnergy ?c = 2"
    by (simp add: Cluster_AddCaloHit_def emptyCluster_def hit_positions forced_hits_fields)
  note law = energy_cap_stopping_rule[OF sort capEvent_pass]
  from law have "energyCapped (currentClusterList ?ev ! 0)"
    by (simp add: capEvent_fields)
  then have capped: "energyCapped ?c" by simp
  from law have "m_pCluster ?r < length (currentClusterList ?ev)
      \<and> \<not> hadronicEnergy (currentClusterList ?ev ! m_pCluster ?r) < m_trackEnergy ?r
      \<longrightarrow> assignHits (?r # []) ?ev = assignHits [] ?ev"
    by blast
  with energy have "assignHits [?r] ?ev = (STATUS_CODE_SUCCESS, ?ev)" by simp
  with sort capEvent_pass capped energy show ?thesis by simp
qed

lemma capEvent_Run:
  "map caloHitList
     (currentClusterList (snd (ForcedClusteringAlgorithm_Run (pointTrackApi encounterOrderSort)
        defaultForcedSettings capEvent)))
     = [[hitOnTrack 5 1 True, hitOffTrack 6 2], [farHit 9 3]]"
  unfolding ForcedClusteringAlgorithm_Run_def GetCurrentTrackList_def GetCurrentOrderedCaloHitList_def
    capEvent_fields option.case sum.case capEvent_input Let_def capEvent_pass
  by (simp add: forced_example_settings IsCaloHitAvailable_def collectRemnants_def
        Cluster_Create_fromCaloHitList_def RemoveEmptyClusters_def DeleteClusters_def GetNCaloHits_def
        Cluster_AddCaloHit_def emptyCluster_def capEvent_fields forced_hits_distinct
        forced_hits_fields hit_positions)

theorem hit_exclusivity_witness:
  "hitsExclusive capEvent
   \<and> \<not> m_shouldRunStandardClusteringAlgorithm defaultForcedSettings
   \<and> \<not> m_shouldAssociateIsolatedHits defaultForcedSettings
   \<and> hitsExclusive (snd (ForcedClusteringAlgorithm_Run (pointTrackApi encounterOrderSort)
        defaultForcedSettings capEvent))
   \<and> map caloHitList
       (currentClusterList (snd (ForcedClusteringAlgorithm_Run (pointTrackApi encounterOrderSort)
          defaultForcedSettings capEvent)))
       = [[hitOnTrack 5 1 True, hitOffTrack 6 2], [farHit 9 3]]"
proof -
  have start: "hitsExclusive capEvent"
    by (simp add: hitsExclusive_def capEvent_fields)
  have off: "\<not> m_shouldRunStandardClusteringAlgorithm defaultForcedSettings"
    "\<not> m_shouldAssociateIsolatedHits defaultForcedSettings"
    by (simp_all add: forced_example_settings)
  from hit_exclusivity[OF start, of defaultForcedSettings "pointTrackApi encounterOrderSort"] off
  have "hitsExclusive (snd (ForcedClusteringAlgorithm_Run (pointTrackApi encounterOrderSort)
        defaultForcedSettings capEvent))"
    by simp
  with start off capEvent_Run show ?thesis by simp
qed




end
